theory Spec2Isabelle
  imports Main
begin

section \<open>The flow run engine of \<^verbatim>\<open>src/prefect/new_flow_engine.py\<close>\<close>

text \<open>
  The engine is modelled by explicit state passing.  Every method of
  \<^verbatim>\<open>FlowRunEngine\<close> takes the engine object and the world outside it and returns
  its outcome together with both, updated.  A raised exception is the \<open>Inl\<close> branch of
  the outcome.  The cooperative (\<^verbatim>\<open>async\<close>) methods of the engine are driven by one
  logical task, so an \<^verbatim>\<open>await\<close> of one of them is modelled as the call it waits
  for, as is \<^verbatim>\<open>run_sync\<close> of one of them.  What the work's callable returns is a
  value of the program: the cooperative driver awaits it (line 299), the blocking driver
  takes it as it is (line 334), and the two are modelled apart.

  Left out, since no transition, call or result depends on them: timestamps, logging,
  the background task group and the task runner handed to the Execution Context, and
  the \<^verbatim>\<open>wait_for\<close> argument of the drivers, which they never read.
\<close>

subsection \<open>Values, exceptions and states\<close>

text \<open>
  \<open>exn\<close> stands for instances of Python's \<^verbatim>\<open>Exception\<close>: what \<^verbatim>\<open>except Exception\<close>
  catches.  \<open>FailedRun\<close> is the error that result resolution raises for a failed run; it
  wraps the exception captured in the state, when there is one.
\<close>

datatype exn =
    TypeError string
  | ValueError string
  | KeyError string
  | RuntimeError string
  | AttributeError string
  | ParameterTypeError string
  | UserError string string
  | FailedRun "exn option"

text \<open>
  The values the work's callable handles.  \<open>Coroutine r\<close> is the coroutine object that
  calling an \<^verbatim>\<open>async def\<close> function returns: its body has not run, and awaiting it
  gives \<open>r\<close>, the value the body returns or the exception it raises.
\<close>

datatype pyval = NoneV | BoolV bool | IntV int | StrV string | Coroutine "exn + pyval"

type_synonym params = "(string \<times> pyval) list"

text \<open>
  Modelled from the spec: the declaration of \<^verbatim>\<open>State\<close> and of its type enumeration
  (\<^verbatim>\<open>prefect.server.schemas.states\<close>) is not among the sources.  The spec gives the six
  types and the attributes type, name and data; the timestamp is left out, since no
  operation of the engine reads it.
\<close>

datatype state_type = PENDING | RUNNING | COMPLETED | FAILED | CRASHED | RETRYING

datatype payload = NoData | ResultData pyval | ExceptionData exn

record state =
  type :: state_type
  name :: string
  message :: "string option"
  data :: payload

text \<open>Modelled from the spec: the state constructors of \<^verbatim>\<open>prefect.states\<close>.\<close>

definition Pending :: state where
  "Pending = \<lparr>type = PENDING, name = ''Pending'', message = None, data = NoData\<rparr>"

definition Running :: state where
  "Running = \<lparr>type = RUNNING, name = ''Running'', message = None, data = NoData\<rparr>"

definition Completed :: state where
  "Completed = \<lparr>type = COMPLETED, name = ''Completed'', message = None, data = NoData\<rparr>"

text \<open>
  Modelled from the spec: \<^verbatim>\<open>State.is_running\<close> and \<^verbatim>\<open>State.is_pending\<close>, predicates
  over the state's type.
\<close>

definition state_is_running :: "state \<Rightarrow> bool" where
  "state_is_running s = (type s = RUNNING)"

definition state_is_pending :: "state \<Rightarrow> bool" where
  "state_is_pending s = (type s = PENDING)"

datatype result_factory = ResultFactory string

text \<open>
  Modelled from the spec: \<^verbatim>\<open>exception_to_failed_state\<close> maps a raised error to a FAILED
  state that carries the error as its payload.  How the result-handling policy
  serialises the payload is not modelled.
\<close>

definition exception_to_failed_state :: "exn \<Rightarrow> string \<Rightarrow> result_factory option \<Rightarrow> state" where
  "exception_to_failed_state exc msg rf =
     \<lparr>type = FAILED, name = ''Failed'', message = Some msg, data = ExceptionData exc\<rparr>"

text \<open>
  Modelled from the spec: \<^verbatim>\<open>State.result\<close>, the result-resolution step.  Asked to raise
  on failure, it raises an error wrapping the original for a FAILED state; otherwise it
  returns the state's payload.
\<close>

definition state_result :: "bool \<Rightarrow> state \<Rightarrow> exn + payload" where
  "state_result raise_on_failure s =
     (if raise_on_failure \<and> type s = FAILED
      then Inl (FailedRun (case data s of ExceptionData e \<Rightarrow> Some e | _ \<Rightarrow> None))
      else Inr (data s))"

subsection \<open>Run records, the work definition and the collaborator\<close>

record flow_run =
  run_id :: nat
  run_name :: "string option"
  run_parameters :: params
  state :: state
  state_name :: string
  state_type :: state_type
  parent_task_run_id :: "nat option"

record task =
  task_name :: string
  task_version :: "string option"

record task_run =
  task_run_id :: nat
  task_run_flow_run_id :: "nat option"

text \<open>
  The work definition.  \<open>fn\<close> is the callable: user code may answer differently each
  time it is called, so it takes the number of calls made before this one.  A plain
  function returns its value or raises; an \<^verbatim>\<open>async def\<close> function returns a coroutine
  object.
  \<open>resolve_custom_flow_run_name\<close> is \<^verbatim>\<open>_resolve_custom_flow_run_name\<close> applied to
  this flow (the helper is not among the sources and is taken as a parameter).
\<close>

record flow =
  flow_name :: string
  flow_version :: "string option"
  fn :: "nat \<Rightarrow> params \<Rightarrow> exn + pyval"
  should_validate_parameters :: bool
  validate_parameters :: "params \<Rightarrow> exn + params"
  resolve_custom_flow_run_name :: "params \<Rightarrow> exn + string"
  serialize_parameters :: "params \<Rightarrow> params"
  log_prints :: "bool option"

text \<open>
  The Execution Context.  The source stores a reference to the run record; the engine
  reads only the identifier of the enclosing run through it, so the identifier is what
  the model keeps.
\<close>

record flow_run_context =
  ctx_flow :: string
  ctx_log_prints :: bool
  ctx_flow_run_id :: "nat option"
  ctx_parameters :: params
  ctx_result_factory :: result_factory

type_synonym task_inputs = "(string \<times> nat list) list"

text \<open>The calls the engine makes on the orchestration collaborator, as it makes them.\<close>

datatype call =
    CreateTaskRun task "nat option" string task_inputs state
  | CreateFlowRun string "string option" params state "nat option"
  | ProposeState state nat

text \<open>
  Everything the engine calls that lies outside the sources is a parameter: the
  collaborator's three operations, each answering from the calls received so far, and
  two helpers of \<^verbatim>\<open>prefect.utilities.engine\<close>.  By the spec's contract each operation
  of the collaborator returns its answer; a collaborator that cannot be reached fails
  \<^verbatim>\<open>start()\<close> when the client is acquired, before anything modelled here happens.
\<close>

record externals =
  propose_state :: "call list \<Rightarrow> state \<Rightarrow> nat \<Rightarrow> state"
  client_create_flow_run ::
    "call list \<Rightarrow> string \<Rightarrow> string option \<Rightarrow> params \<Rightarrow> state \<Rightarrow> nat option \<Rightarrow> flow_run"
  client_create_task_run ::
    "call list \<Rightarrow> task \<Rightarrow> nat option \<Rightarrow> string \<Rightarrow> task_inputs \<Rightarrow> state \<Rightarrow> task_run"
  collect_task_run_inputs :: "pyval \<Rightarrow> nat list"
  dynamic_key_for_task_run :: "flow_run_context \<Rightarrow> task \<Rightarrow> string"

datatype prefect_client = PrefectClient

datatype event = ClientAcquired | ClientReleased | ContextEntered | ContextExited

text \<open>
  The world outside the engine: the calls the collaborator has received, the stack of
  active Execution Contexts (the current one first), the acquisitions and releases of
  clients and contexts in the order they happened, the number of times the work's
  callable has been invoked, and the time slept.
\<close>

record world =
  calls :: "call list"
  contexts :: "flow_run_context list"
  events :: "event list"
  invocations :: nat
  slept :: nat

subsection \<open>The engine\<close>

record engine =
  flow :: flow
  parameters :: params
  flow_run :: "flow_run option"
  u_is_started :: bool
  u_client :: "prefect_client option"
  short_circuit :: bool

text \<open>The dataclass constructor with \<^verbatim>\<open>__post_init__\<close>.\<close>

definition FlowRunEngine :: "flow \<Rightarrow> params option \<Rightarrow> flow_run option \<Rightarrow> engine" where
  "FlowRunEngine f ps fr =
     \<lparr>flow = f, parameters = (case ps of None \<Rightarrow> [] | Some p \<Rightarrow> p), flow_run = fr,
      u_is_started = False, u_client = None, short_circuit = False\<rparr>"

text \<open>
  The \<^verbatim>\<open>client\<close> property: the client is returned when the engine is started and
  holds one; in every other case the guard of lines 63--64 raises.
\<close>

definition client :: "engine \<Rightarrow> exn + prefect_client" where
  "client eng =
     (case (u_is_started eng, u_client eng) of
        (True, Some c) \<Rightarrow> Inr c
      | _ \<Rightarrow> Inl (RuntimeError ''Engine has not started.''))"

text \<open>
  The \<^verbatim>\<open>state\<close> property reads \<^verbatim>\<open>self.flow_run.state\<close>; without a run record the
  attribute access on \<^verbatim>\<open>None\<close> raises.
\<close>

definition engine_state :: "engine \<Rightarrow> exn + state" where
  "engine_state eng =
     (case flow_run eng of
        None \<Rightarrow> Inl (AttributeError ''NoneType object has no attribute state'')
      | Some fr \<Rightarrow> Inr (state fr))"

text \<open>
  \<^verbatim>\<open>set_state\<close>, lines 79--90.  The arguments of \<^verbatim>\<open>propose_state\<close> are evaluated
  from the left: \<^verbatim>\<open>self.client\<close> first, then \<^verbatim>\<open>self.flow_run.id\<close>.  The call of
  \<^verbatim>\<open>set_subflow_state\<close> on line 89 runs a body of \<^verbatim>\<open>pass\<close>.
\<close>

definition set_state ::
  "externals \<Rightarrow> state \<Rightarrow> engine \<Rightarrow> world \<Rightarrow> (exn + state) \<times> engine \<times> world" where
  "set_state X s eng w =
     (if short_circuit eng then (engine_state eng, eng, w)
      else case client eng of
        Inl e \<Rightarrow> (Inl e, eng, w)
      | Inr c \<Rightarrow>
         (case flow_run eng of
            None \<Rightarrow> (Inl (AttributeError ''NoneType object has no attribute id''), eng, w)
          | Some fr \<Rightarrow>
             (let accepted = propose_state X (calls w) s (run_id fr);
                  w' = w\<lparr>calls := calls w @ [ProposeState s (run_id fr)]\<rparr>;
                  fr' = fr\<lparr>state := accepted, state_name := name accepted,
                           state_type := type accepted\<rparr>
              in (Inr accepted, eng\<lparr>flow_run := Some fr'\<rparr>, w'))))"

definition begin_run :: "externals \<Rightarrow> engine \<Rightarrow> world \<Rightarrow> (exn + state) \<times> engine \<times> world" where
  "begin_run X eng w = set_state X Running eng w"

definition result :: "engine \<Rightarrow> bool \<Rightarrow> exn + payload" where
  "result eng raise_on_failure =
     (case engine_state eng of
        Inl e \<Rightarrow> Inl e
      | Inr s \<Rightarrow> state_result raise_on_failure s)"

definition handle_success ::
  "externals \<Rightarrow> pyval \<Rightarrow> engine \<Rightarrow> world \<Rightarrow> (exn + pyval) \<times> engine \<times> world" where
  "handle_success X res eng w =
     (case set_state X Completed eng w of
        (Inl e, eng', w') \<Rightarrow> (Inl e, eng', w')
      | (Inr _, eng', w') \<Rightarrow> (Inr res, eng', w'))"

definition FlowRunContext_get :: "world \<Rightarrow> flow_run_context option" where
  "FlowRunContext_get w = (case contexts w of [] \<Rightarrow> None | c # _ \<Rightarrow> Some c)"

definition handle_exception ::
  "externals \<Rightarrow> exn \<Rightarrow> string option \<Rightarrow> result_factory option \<Rightarrow> engine \<Rightarrow> world
     \<Rightarrow> (exn + state) \<times> engine \<times> world" where
  "handle_exception X exc msg rf eng w =
     (let context = FlowRunContext_get w;
          s = exception_to_failed_state exc
                (case msg of
                   None \<Rightarrow> ''Flow run encountered an exception:''
                 | Some m \<Rightarrow> if m = [] then ''Flow run encountered an exception:'' else m)
                (case rf of
                   Some r \<Rightarrow> Some r
                 | None \<Rightarrow> map_option ctx_result_factory context)
      in set_state X s eng w)"

definition is_running :: "engine \<Rightarrow> bool" where
  "is_running eng =
     (case flow_run eng of None \<Rightarrow> False | Some fr \<Rightarrow> state_is_running (state fr))"

definition is_pending :: "engine \<Rightarrow> bool" where
  "is_pending eng =
     (case flow_run eng of None \<Rightarrow> False | Some fr \<Rightarrow> state_is_pending (state fr))"

subsection \<open>Creating the run record\<close>

definition create_subflow_task_run ::
  "externals \<Rightarrow> engine \<Rightarrow> prefect_client \<Rightarrow> flow_run_context \<Rightarrow> world \<Rightarrow> task_run \<times> world" where
  "create_subflow_task_run X eng cl context w =
     (let dummy_task = \<lparr>task_name = flow_name (flow eng), task_version = flow_version (flow eng)\<rparr>;
          inputs = map (\<lambda>(k, v). (k, collect_task_run_inputs X v)) (parameters eng);
          key = dynamic_key_for_task_run X context dummy_task;
          parent_task_run =
            client_create_task_run X (calls w) dummy_task (ctx_flow_run_id context) key inputs Pending
      in (parent_task_run,
          w\<lparr>calls := calls w @
                [CreateTaskRun dummy_task (ctx_flow_run_id context) key inputs Pending]\<rparr>))"

text \<open>
  Lines 145--150: the \<^verbatim>\<open>try\<close> block around the name resolution.  Only a
  \<^verbatim>\<open>TypeError\<close> is caught, and gives no custom name; any other exception is raised
  on.
\<close>

definition custom_flow_run_name :: "flow \<Rightarrow> params \<Rightarrow> exn + string option" where
  "custom_flow_run_name f ps =
     (case resolve_custom_flow_run_name f ps of
        Inr n \<Rightarrow> Inr (Some n)
      | Inl (TypeError m) \<Rightarrow> Inr None
      | Inl e \<Rightarrow> Inl e)"

definition create_flow_run ::
  "externals \<Rightarrow> engine \<Rightarrow> prefect_client \<Rightarrow> world \<Rightarrow> (exn + flow_run) \<times> world" where
  "create_flow_run X eng cl w =
     (let flow_run_ctx = FlowRunContext_get w;
          (parent_task_run, w1) =
            (case flow_run_ctx of
               None \<Rightarrow> (None, w)
             | Some context \<Rightarrow>
                 (let (tr, w') = create_subflow_task_run X eng cl context w in (Some tr, w')))
      in case custom_flow_run_name (flow eng) (parameters eng) of
           Inl e \<Rightarrow> (Inl e, w1)
         | Inr flow_run_name \<Rightarrow>
            (let ps = serialize_parameters (flow eng) (parameters eng);
                 parent = map_option task_run_id parent_task_run;
                 fr = client_create_flow_run X (calls w1) (flow_name (flow eng)) flow_run_name ps
                        Pending parent
             in (Inr fr,
                 w1\<lparr>calls := calls w1 @
                       [CreateFlowRun (flow_name (flow eng)) flow_run_name ps Pending parent]\<rparr>)))"

subsection \<open>The start scope\<close>

text \<open>
  A generator-based context manager has two halves: the code up to \<^verbatim>\<open>yield\<close>, run on
  entering the \<^verbatim>\<open>with\<close> statement, and the code after it, run on leaving with the
  outcome of the body.  Lines 171--172 and 174--184 of \<^verbatim>\<open>start\<close> are repeated in
  \<^verbatim>\<open>start_sync\<close> (lines 213--214 and 216--228) with each coroutine passed to
  \<^verbatim>\<open>run_sync\<close>, which runs it to completion; they are the two steps below.
\<close>

definition ResultFactory_from_flow :: "flow \<Rightarrow> result_factory" where
  "ResultFactory_from_flow f = ResultFactory (flow_name f)"

definition attach_flow_run ::
  "externals \<Rightarrow> prefect_client \<Rightarrow> engine \<Rightarrow> world \<Rightarrow> (exn + unit) \<times> engine \<times> world" where
  "attach_flow_run X cl eng w =
     (if flow_run eng = None then
        (case create_flow_run X eng cl w of
           (Inl e, w') \<Rightarrow> (Inl e, eng, w')
         | (Inr fr, w') \<Rightarrow> (Inr (), eng\<lparr>flow_run := Some fr\<rparr>, w'))
      else (Inr (), eng, w))"

definition validate_flow_parameters ::
  "externals \<Rightarrow> engine \<Rightarrow> world \<Rightarrow> (exn + unit) \<times> engine \<times> world" where
  "validate_flow_parameters X eng w =
     (if should_validate_parameters (flow eng) then
        (case validate_parameters (flow eng) (parameters eng) of
           Inr ps \<Rightarrow> (Inr (), eng\<lparr>parameters := ps\<rparr>, w)
         | Inl exc \<Rightarrow>
            (case handle_exception X exc (Some ''Validation of flow parameters failed with error'')
                    (Some (ResultFactory_from_flow (flow eng))) eng w of
               (Inl e, eng', w') \<Rightarrow> (Inl e, eng', w')
             | (Inr _, eng', w') \<Rightarrow> (Inr (), eng'\<lparr>short_circuit := True\<rparr>, w')))
      else (Inr (), eng, w))"

definition FlowRunContext :: "engine \<Rightarrow> flow_run_context" where
  "FlowRunContext eng =
     \<lparr>ctx_flow = flow_name (flow eng),
      ctx_log_prints = (case log_prints (flow eng) of None \<Rightarrow> False | Some b \<Rightarrow> b),
      ctx_flow_run_id = map_option run_id (flow_run eng),
      ctx_parameters = parameters eng,
      ctx_result_factory = ResultFactory_from_flow (flow eng)\<rparr>"

definition enter_context :: "flow_run_context \<Rightarrow> world \<Rightarrow> world" where
  "enter_context c w = w\<lparr>contexts := c # contexts w, events := events w @ [ContextEntered]\<rparr>"

definition exit_context :: "world \<Rightarrow> world" where
  "exit_context w = w\<lparr>contexts := tl (contexts w), events := events w @ [ContextExited]\<rparr>"

definition acquire_client :: "world \<Rightarrow> world" where
  "acquire_client w = w\<lparr>events := events w @ [ClientAcquired]\<rparr>"

definition release_client :: "world \<Rightarrow> world" where
  "release_client w = w\<lparr>events := events w @ [ClientReleased]\<rparr>"

text \<open>
  \<^verbatim>\<open>start\<close>, up to its \<^verbatim>\<open>yield\<close>.  An exception raised here leaves through
  \<^verbatim>\<open>async with get_client()\<close>, which releases the client; lines 198--199 are not
  reached.
\<close>

definition start_enter :: "externals \<Rightarrow> engine \<Rightarrow> world \<Rightarrow> (exn + unit) \<times> engine \<times> world" where
  "start_enter X eng w =
     (let cl = PrefectClient;
          w1 = acquire_client w;
          eng1 = eng\<lparr>u_client := Some cl, u_is_started := True\<rparr>
      in case attach_flow_run X cl eng1 w1 of
           (Inl e, eng2, w2) \<Rightarrow> (Inl e, eng2, release_client w2)
         | (Inr _, eng2, w2) \<Rightarrow>
            (case validate_flow_parameters X eng2 w2 of
               (Inl e, eng3, w3) \<Rightarrow> (Inl e, eng3, release_client w3)
             | (Inr _, eng3, w3) \<Rightarrow> (Inr (), eng3, enter_context (FlowRunContext eng3) w3)))"

text \<open>
  \<^verbatim>\<open>start\<close>, from its \<^verbatim>\<open>yield\<close> on, given the outcome of the body.  The context and
  then the client are left on either outcome.  When the body raised, the exception
  leaves the generator from the \<^verbatim>\<open>yield\<close>, and lines 198--199, which follow the
  \<^verbatim>\<open>async with\<close> block, are not run.
\<close>

definition start_exit :: "(exn + 'a) \<Rightarrow> engine \<Rightarrow> world \<Rightarrow> (exn + 'a) \<times> engine \<times> world" where
  "start_exit r eng w =
     (let w1 = release_client (exit_context w)
      in case r of
           Inl e \<Rightarrow> (Inl e, eng, w1)
         | Inr v \<Rightarrow> (Inr v, eng\<lparr>u_is_started := False, u_client := None\<rparr>, w1))"

text \<open>The statement \<^verbatim>\<open>async with engine.start() as run: body\<close>.\<close>

definition start ::
  "externals \<Rightarrow> (engine \<Rightarrow> world \<Rightarrow> ((exn + 'a) \<times> engine \<times> world) option) \<Rightarrow> engine \<Rightarrow> world
     \<Rightarrow> ((exn + 'a) \<times> engine \<times> world) option" where
  "start X body eng w =
     (case start_enter X eng w of
        (Inl e, eng1, w1) \<Rightarrow> Some (Inl e, eng1, w1)
      | (Inr _, eng1, w1) \<Rightarrow>
         (case body eng1 w1 of
            None \<Rightarrow> None
          | Some (r, eng2, w2) \<Rightarrow> Some (start_exit r eng2 w2)))"

text \<open>
  \<^verbatim>\<open>start_sync\<close>, up to its \<^verbatim>\<open>yield\<close>.  An exception raised here is re-raised by the
  \<^verbatim>\<open>except\<close> clause, whose call of \<^verbatim>\<open>client.__aexit__\<close> is commented out; the
  \<^verbatim>\<open>finally\<close> clause resets the two fields.
\<close>

definition start_sync_enter :: "externals \<Rightarrow> engine \<Rightarrow> world \<Rightarrow> (exn + unit) \<times> engine \<times> world" where
  "start_sync_enter X eng w =
     (let cl = PrefectClient;
          w1 = acquire_client w;
          eng1 = eng\<lparr>u_client := Some cl, u_is_started := True\<rparr>
      in case attach_flow_run X cl eng1 w1 of
           (Inl e, eng2, w2) \<Rightarrow> (Inl e, eng2\<lparr>u_is_started := False, u_client := None\<rparr>, w2)
         | (Inr _, eng2, w2) \<Rightarrow>
            (case validate_flow_parameters X eng2 w2 of
               (Inl e, eng3, w3) \<Rightarrow> (Inl e, eng3\<lparr>u_is_started := False, u_client := None\<rparr>, w3)
             | (Inr _, eng3, w3) \<Rightarrow> (Inr (), eng3, enter_context (FlowRunContext eng3) w3)))"

text \<open>
  \<^verbatim>\<open>start_sync\<close>, from its \<^verbatim>\<open>yield\<close> on.  The context is left on either outcome.  The
  client is released in the \<^verbatim>\<open>else\<close> clause only, that is, when the body did not
  raise; the \<^verbatim>\<open>finally\<close> clause resets the two fields on either outcome.
\<close>

definition start_sync_exit :: "(exn + 'a) \<Rightarrow> engine \<Rightarrow> world \<Rightarrow> (exn + 'a) \<times> engine \<times> world" where
  "start_sync_exit r eng w =
     (let w1 = exit_context w
      in case r of
           Inl e \<Rightarrow> (Inl e, eng\<lparr>u_is_started := False, u_client := None\<rparr>, w1)
         | Inr v \<Rightarrow> (Inr v, eng\<lparr>u_is_started := False, u_client := None\<rparr>, release_client w1))"

text \<open>The statement \<^verbatim>\<open>with engine.start_sync() as run: body\<close>.\<close>

definition start_sync ::
  "externals \<Rightarrow> (engine \<Rightarrow> world \<Rightarrow> ((exn + 'a) \<times> engine \<times> world) option) \<Rightarrow> engine \<Rightarrow> world
     \<Rightarrow> ((exn + 'a) \<times> engine \<times> world) option" where
  "start_sync X body eng w =
     (case start_sync_enter X eng w of
        (Inl e, eng1, w1) \<Rightarrow> Some (Inl e, eng1, w1)
      | (Inr _, eng1, w1) \<Rightarrow>
         (case body eng1 w1 of
            None \<Rightarrow> None
          | Some (r, eng2, w2) \<Rightarrow> Some (start_sync_exit r eng2 w2)))"

subsection \<open>The drivers\<close>

datatype return_type = ReturnState | ReturnResult

text \<open>
  What a driver returns: the value of the work's callable (line 304), the run record's
  state (line 311), or the payload that result resolution returns (line 312).
\<close>

datatype flow_return = Returned pyval | ReturnedState state | Resolved payload

definition sleep :: "world \<Rightarrow> world" where
  "sleep w = w\<lparr>slept := slept w + 1\<rparr>"

text \<open>
  The \<^verbatim>\<open>await\<close> expression on a value: a coroutine object gives what its body gives;
  any other value of \<open>pyval\<close> is not awaitable, and awaiting it raises \<^verbatim>\<open>TypeError\<close>.
\<close>

definition await :: "pyval \<Rightarrow> exn + pyval" where
  "await x =
     (case x of
        Coroutine r \<Rightarrow> r
      | _ \<Rightarrow> Inl (TypeError ''object cannot be used in await expression''))"

text \<open>
  Line 299, \<^verbatim>\<open>await flow.fn(**(run.parameters or {}))\<close>: the call is made first, and
  what it returns is awaited.
\<close>

definition awaited_call :: "flow \<Rightarrow> nat \<Rightarrow> params \<Rightarrow> exn + pyval" where
  "awaited_call f k ps = (case fn f k ps of Inl e \<Rightarrow> Inl e | Inr x \<Rightarrow> await x)"

definition call_fn_await :: "flow \<Rightarrow> params \<Rightarrow> world \<Rightarrow> (exn + pyval) \<times> world" where
  "call_fn_await f ps w =
     (awaited_call f (invocations w) ps, w\<lparr>invocations := Suc (invocations w)\<rparr>)"

text \<open>Line 334, \<^verbatim>\<open>flow.fn(**(run.parameters or {}))\<close>: the plain call.\<close>

definition call_fn :: "flow \<Rightarrow> params \<Rightarrow> world \<Rightarrow> (exn + pyval) \<times> world" where
  "call_fn f ps w = (fn f (invocations w) ps, w\<lparr>invocations := Suc (invocations w)\<rparr>)"

text \<open>
  Both loops of a driver may run for ever (a collaborator that keeps the run PENDING, or
  keeps it RUNNING while the work raises), so they take fuel, one unit for each
  iteration; \<open>None\<close> is a loop that has not ended within its fuel.
\<close>

fun pending_loop ::
  "externals \<Rightarrow> nat \<Rightarrow> engine \<Rightarrow> world \<Rightarrow> ((exn + unit) \<times> engine \<times> world) option" where
  "pending_loop X 0 run w = (if is_pending run then None else Some (Inr (), run, w))"
| "pending_loop X (Suc n) run w =
     (if is_pending run then
        (case begin_run X run (sleep w) of
           (Inl e, run', w') \<Rightarrow> Some (Inl e, run', w')
         | (Inr _, run', w') \<Rightarrow> pending_loop X n run' w')
      else Some (Inr (), run, w))"

text \<open>
  The loop over \<^verbatim>\<open>run.is_running()\<close>.  \<open>Inr (Some v)\<close> is the \<^verbatim>\<open>return result\<close> inside
  the loop, \<open>Inr None\<close> the loop ending.  The \<^verbatim>\<open>try\<close> block covers the call of
  \<^verbatim>\<open>handle_success\<close> too, so an exception raised there is handed to
  \<^verbatim>\<open>handle_exception\<close> as well.
\<close>

fun running_loop ::
  "externals \<Rightarrow> nat \<Rightarrow> flow \<Rightarrow> return_type \<Rightarrow> engine \<Rightarrow> world
     \<Rightarrow> ((exn + pyval option) \<times> engine \<times> world) option" where
  "running_loop X 0 f rt run w = (if is_running run then None else Some (Inr None, run, w))"
| "running_loop X (Suc n) f rt run w =
     (if is_running run then
        (case call_fn_await f (parameters run) w of
           (Inr res, w1) \<Rightarrow>
             (case handle_success X res run w1 of
                (Inr _, run2, w2) \<Rightarrow>
                  if rt = ReturnResult then Some (Inr (Some res), run2, w2)
                  else running_loop X n f rt run2 w2
              | (Inl exc, run2, w2) \<Rightarrow>
                  (case handle_exception X exc None None run2 w2 of
                     (Inl e, run3, w3) \<Rightarrow> Some (Inl e, run3, w3)
                   | (Inr _, run3, w3) \<Rightarrow> running_loop X n f rt run3 w3))
         | (Inl exc, w1) \<Rightarrow>
             (case handle_exception X exc None None run w1 of
                (Inl e, run3, w3) \<Rightarrow> Some (Inl e, run3, w3)
              | (Inr _, run3, w3) \<Rightarrow> running_loop X n f rt run3 w3))
      else Some (Inr None, run, w))"

text \<open>The block under \<^verbatim>\<open>async with engine.start() as run\<close> in \<^verbatim>\<open>run_flow\<close>.\<close>

definition run_flow_body ::
  "externals \<Rightarrow> nat \<Rightarrow> flow \<Rightarrow> return_type \<Rightarrow> engine \<Rightarrow> world
     \<Rightarrow> ((exn + flow_return) \<times> engine \<times> world) option" where
  "run_flow_body X fuel f rt run w =
     (case begin_run X run w of
        (Inl e, run1, w1) \<Rightarrow> Some (Inl e, run1, w1)
      | (Inr _, run1, w1) \<Rightarrow>
         (case pending_loop X fuel run1 w1 of
            None \<Rightarrow> None
          | Some (Inl e, run2, w2) \<Rightarrow> Some (Inl e, run2, w2)
          | Some (Inr _, run2, w2) \<Rightarrow>
             (case running_loop X fuel f rt run2 w2 of
                None \<Rightarrow> None
              | Some (Inl e, run3, w3) \<Rightarrow> Some (Inl e, run3, w3)
              | Some (Inr (Some res), run3, w3) \<Rightarrow> Some (Inr (Returned res), run3, w3)
              | Some (Inr None, run3, w3) \<Rightarrow>
                 (if rt = ReturnState then
                    (case engine_state run3 of
                       Inl e \<Rightarrow> Some (Inl e, run3, w3)
                     | Inr s \<Rightarrow> Some (Inr (ReturnedState s), run3, w3))
                  else
                    (case result run3 True of
                       Inl e \<Rightarrow> Some (Inl e, run3, w3)
                     | Inr p \<Rightarrow> Some (Inr (Resolved p), run3, w3))))))"

definition run_flow ::
  "externals \<Rightarrow> nat \<Rightarrow> flow \<Rightarrow> flow_run option \<Rightarrow> params option \<Rightarrow> return_type \<Rightarrow> world
     \<Rightarrow> ((exn + flow_return) \<times> engine \<times> world) option" where
  "run_flow X fuel f fr ps rt w =
     (let engine = FlowRunEngine f ps fr
      in start X (run_flow_body X fuel f rt) engine w)"

text \<open>
  \<^verbatim>\<open>run_flow_sync\<close> and its two loops, written out from lines 315--346:
  \<^verbatim>\<open>time.sleep\<close> for \<^verbatim>\<open>asyncio.sleep\<close>, every coroutine of the engine run to
  completion by \<^verbatim>\<open>run_sync\<close>, and the callable called without \<^verbatim>\<open>await\<close>: what it
  returns is the result, a coroutine object included.
\<close>

fun pending_loop_sync ::
  "externals \<Rightarrow> nat \<Rightarrow> engine \<Rightarrow> world \<Rightarrow> ((exn + unit) \<times> engine \<times> world) option" where
  "pending_loop_sync X 0 run w = (if is_pending run then None else Some (Inr (), run, w))"
| "pending_loop_sync X (Suc n) run w =
     (if is_pending run then
        (case begin_run X run (sleep w) of
           (Inl e, run', w') \<Rightarrow> Some (Inl e, run', w')
         | (Inr _, run', w') \<Rightarrow> pending_loop_sync X n run' w')
      else Some (Inr (), run, w))"

fun running_loop_sync ::
  "externals \<Rightarrow> nat \<Rightarrow> flow \<Rightarrow> return_type \<Rightarrow> engine \<Rightarrow> world
     \<Rightarrow> ((exn + pyval option) \<times> engine \<times> world) option" where
  "running_loop_sync X 0 f rt run w =
     (if is_running run then None else Some (Inr None, run, w))"
| "running_loop_sync X (Suc n) f rt run w =
     (if is_running run then
        (case call_fn f (parameters run) w of
           (Inr res, w1) \<Rightarrow>
             (case handle_success X res run w1 of
                (Inr _, run2, w2) \<Rightarrow>
                  if rt = ReturnResult then Some (Inr (Some res), run2, w2)
                  else running_loop_sync X n f rt run2 w2
              | (Inl exc, run2, w2) \<Rightarrow>
                  (case handle_exception X exc None None run2 w2 of
                     (Inl e, run3, w3) \<Rightarrow> Some (Inl e, run3, w3)
                   | (Inr _, run3, w3) \<Rightarrow> running_loop_sync X n f rt run3 w3))
         | (Inl exc, w1) \<Rightarrow>
             (case handle_exception X exc None None run w1 of
                (Inl e, run3, w3) \<Rightarrow> Some (Inl e, run3, w3)
              | (Inr _, run3, w3) \<Rightarrow> running_loop_sync X n f rt run3 w3))
      else Some (Inr None, run, w))"

definition run_flow_sync_body ::
  "externals \<Rightarrow> nat \<Rightarrow> flow \<Rightarrow> return_type \<Rightarrow> engine \<Rightarrow> world
     \<Rightarrow> ((exn + flow_return) \<times> engine \<times> world) option" where
  "run_flow_sync_body X fuel f rt run w =
     (case begin_run X run w of
        (Inl e, run1, w1) \<Rightarrow> Some (Inl e, run1, w1)
      | (Inr _, run1, w1) \<Rightarrow>
         (case pending_loop_sync X fuel run1 w1 of
            None \<Rightarrow> None
          | Some (Inl e, run2, w2) \<Rightarrow> Some (Inl e, run2, w2)
          | Some (Inr _, run2, w2) \<Rightarrow>
             (case running_loop_sync X fuel f rt run2 w2 of
                None \<Rightarrow> None
              | Some (Inl e, run3, w3) \<Rightarrow> Some (Inl e, run3, w3)
              | Some (Inr (Some res), run3, w3) \<Rightarrow> Some (Inr (Returned res), run3, w3)
              | Some (Inr None, run3, w3) \<Rightarrow>
                 (if rt = ReturnState then
                    (case engine_state run3 of
                       Inl e \<Rightarrow> Some (Inl e, run3, w3)
                     | Inr s \<Rightarrow> Some (Inr (ReturnedState s), run3, w3))
                  else
                    (case result run3 True of
                       Inl e \<Rightarrow> Some (Inl e, run3, w3)
                     | Inr p \<Rightarrow> Some (Inr (Resolved p), run3, w3))))))"

definition run_flow_sync ::
  "externals \<Rightarrow> nat \<Rightarrow> flow \<Rightarrow> flow_run option \<Rightarrow> params option \<Rightarrow> return_type \<Rightarrow> world
     \<Rightarrow> ((exn + flow_return) \<times> engine \<times> world) option" where
  "run_flow_sync X fuel f fr ps rt w =
     (let engine = FlowRunEngine f ps fr
      in start_sync X (run_flow_sync_body X fuel f rt) engine w)"

subsection \<open>Notions used to state the properties\<close>

text \<open>
  A collaborator accepts a proposed state when the state it answers with has the type
  and the payload of the proposal, whatever calls came before and whichever run the
  proposal is for.
\<close>

definition accepts :: "externals \<Rightarrow> state \<Rightarrow> bool" where
  "accepts X s =
     (\<forall>cs i. type (propose_state X cs s i) = type s \<and> data (propose_state X cs s i) = data s)"

text \<open>
  The parameters the callable is invoked with: those that validation returns when it is
  enabled (lines 175--177), the given ones otherwise.
\<close>

definition validated_parameters :: "flow \<Rightarrow> params \<Rightarrow> exn + params" where
  "validated_parameters f ps =
     (if should_validate_parameters f then validate_parameters f ps else Inr ps)"

text \<open>
  A run record is at hand for the engine: the caller supplied one, or the name
  resolution lets \<^verbatim>\<open>create_flow_run\<close> through to the collaborator.
\<close>

definition run_record_at_hand :: "flow \<Rightarrow> params \<Rightarrow> flow_run option \<Rightarrow> bool" where
  "run_record_at_hand f ps fr =
     (case fr of
        Some r \<Rightarrow> True
      | None \<Rightarrow> (case custom_flow_run_name f ps of Inr nm \<Rightarrow> True | Inl e \<Rightarrow> False))"

text \<open>Two successive calls of \<^verbatim>\<open>set_state\<close>: what each returns, and the engine and world left.\<close>

definition set_state_twice ::
  "externals \<Rightarrow> state \<Rightarrow> state \<Rightarrow> engine \<Rightarrow> world
     \<Rightarrow> (exn + state) \<times> (exn + state) \<times> engine \<times> world" where
  "set_state_twice X s1 s2 eng w =
     (case set_state X s1 eng w of
        (r1, eng1, w1) \<Rightarrow>
          (case set_state X s2 eng1 w1 of (r2, eng2, w2) \<Rightarrow> (r1, r2, eng2, w2)))"

text \<open>What a caller of a driver observes: what it returned or raised, and the run record.\<close>

definition observed ::
  "((exn + flow_return) \<times> engine \<times> world) option
     \<Rightarrow> ((exn + flow_return) \<times> flow_run option \<times> call list \<times> nat) option" where
  "observed out =
     map_option (\<lambda>(r, eng, w). (r, flow_run eng, calls w, invocations w)) out"

text \<open>
  Projections of a driver's outcome: what it returned or raised with the type of the run
  record's state, the short-circuit flag and the number of invocations of the callable;
  the acquisitions and releases; and what is left of the engine's client.
\<close>

definition summary ::
  "((exn + flow_return) \<times> engine \<times> world) option
     \<Rightarrow> ((exn + flow_return) \<times> state_type option \<times> bool \<times> nat) option" where
  "summary out =
     map_option (\<lambda>(r, run, w).
       (r, map_option (\<lambda>fr. type (state fr)) (flow_run run), short_circuit run, invocations w)) out"

definition events_after ::
  "((exn + flow_return) \<times> engine \<times> world) option \<Rightarrow> event list option" where
  "events_after out = map_option (\<lambda>(r, run, w). events w) out"

definition client_after ::
  "((exn + flow_return) \<times> engine \<times> world) option
     \<Rightarrow> (bool \<times> prefect_client option \<times> (exn + prefect_client)) option" where
  "client_after out = map_option (\<lambda>(r, run, w). (u_is_started run, u_client run, client run)) out"

subsection \<open>Concrete collaborators, work definitions and worlds\<close>

text \<open>A collaborator that accepts every proposal as it is and numbers its records.\<close>

definition accepting :: externals where
  "accepting =
     \<lparr>propose_state = (\<lambda>cs s i. s),
      client_create_flow_run = (\<lambda>cs fname nm ps st parent.
         \<lparr>run_id = length cs, run_name = nm, run_parameters = ps, state = st,
          state_name = name st, state_type = type st, parent_task_run_id = parent\<rparr>),
      client_create_task_run = (\<lambda>cs t frid key inputs st.
         \<lparr>task_run_id = length cs, task_run_flow_run_id = frid\<rparr>),
      collect_task_run_inputs = (\<lambda>v. []),
      dynamic_key_for_task_run = (\<lambda>c t. task_name t)\<rparr>"

text \<open>A collaborator that answers every proposal with a RUNNING state.\<close>

definition coercing :: externals where
  "coercing = accepting\<lparr>propose_state := (\<lambda>cs s i. Running)\<rparr>"

text \<open>
  A collaborator that holds every run completed already: it answers a RUNNING proposal
  with a COMPLETED state, and accepts every other proposal.
\<close>

definition already_completed :: externals where
  "already_completed = accepting\<lparr>propose_state := (\<lambda>cs s i.
     if type s = RUNNING then Completed else s)\<rparr>"

text \<open>
  A collaborator that grants one retry: it answers the first FAILED proposal with a
  RUNNING state named Retrying, and accepts every other proposal.
\<close>

fun proposes_failed :: "call \<Rightarrow> bool" where
  "proposes_failed (ProposeState s i) = (type s = FAILED)"
| "proposes_failed c = False"

definition retrying :: externals where
  "retrying = accepting\<lparr>propose_state := (\<lambda>cs s i.
     if type s = FAILED \<and> filter proposes_failed cs = []
     then Running\<lparr>name := ''Retrying''\<rparr> else s)\<rparr>"

definition no_custom_name :: "params \<Rightarrow> exn + string" where
  "no_custom_name ps = Inl (TypeError ''Expected string or callable for flow_run_name'')"

text \<open>A work definition that requires \<^verbatim>\<open>x: int\<close> and returns \<^verbatim>\<open>x + 1\<close>.\<close>

definition validate_x_int :: "params \<Rightarrow> exn + params" where
  "validate_x_int ps =
     (case map_of ps ''x'' of
        Some (IntV i) \<Rightarrow> Inr ps
      | _ \<Rightarrow> Inl (ParameterTypeError ''x is not an int''))"

definition add_one :: flow where
  "add_one =
     \<lparr>flow_name = ''add_one'', flow_version = None,
      fn = (\<lambda>k ps. case map_of ps ''x'' of
                      Some (IntV i) \<Rightarrow> Inr (IntV (i + 1))
                    | _ \<Rightarrow> Inl (TypeError ''unsupported operand'')),
      should_validate_parameters = True,
      validate_parameters = validate_x_int,
      resolve_custom_flow_run_name = no_custom_name,
      serialize_parameters = (\<lambda>ps. ps),
      log_prints = None\<rparr>"

text \<open>A work definition whose callable always raises.\<close>

definition boom :: flow where
  "boom = add_one\<lparr>flow_name := ''boom'', fn := (\<lambda>k ps. Inl (ValueError ''boom''))\<rparr>"

text \<open>A work definition whose callable raises on its first call and returns 7 afterwards.\<close>

definition flaky :: flow where
  "flaky = add_one\<lparr>flow_name := ''flaky'',
     fn := (\<lambda>k ps. if k = 0 then Inl (ValueError ''first attempt'') else Inr (IntV 7))\<rparr>"

text \<open>
  A work definition that requires \<^verbatim>\<open>x: int\<close> and whose callable, an \<^verbatim>\<open>async def\<close>,
  does not read \<^verbatim>\<open>x\<close>.
\<close>

definition unchecked_body :: flow where
  "unchecked_body =
     add_one\<lparr>flow_name := ''unchecked_body'', fn := (\<lambda>k ps. Inr (Coroutine (Inr NoneV)))\<rparr>"

text \<open>
  The same work definition with its callable declared \<^verbatim>\<open>async def\<close>: calling it
  returns a coroutine object around what the body does.
\<close>

definition as_coroutine :: "flow \<Rightarrow> flow" where
  "as_coroutine f = f\<lparr>fn := (\<lambda>k ps. Inr (Coroutine (fn f k ps)))\<rparr>"

text \<open>The engine of the blocking driver, seen with the callable declared \<^verbatim>\<open>async def\<close>.\<close>

definition with_coroutine :: "engine \<Rightarrow> engine" where
  "with_coroutine eng = eng\<lparr>flow := as_coroutine (flow eng)\<rparr>"

text \<open>
  A work definition whose custom run name is a template over a parameter the call does
  not supply: formatting it raises \<^verbatim>\<open>KeyError\<close>.
\<close>

definition badly_named :: flow where
  "badly_named = add_one\<lparr>flow_name := ''badly_named'',
     resolve_custom_flow_run_name := (\<lambda>ps. Inl (KeyError ''y''))\<rparr>"

text \<open>The same run name on the work definition whose callable always raises.\<close>

definition badly_named_boom :: flow where
  "badly_named_boom = boom\<lparr>flow_name := ''badly_named_boom'',
     resolve_custom_flow_run_name := (\<lambda>ps. Inl (KeyError ''y''))\<rparr>"

definition world0 :: world where
  "world0 = \<lparr>calls = [], contexts = [], events = [], invocations = 0, slept = 0\<rparr>"

definition x_is :: "pyval \<Rightarrow> params" where
  "x_is v = [(''x'', v)]"

definition run7 :: flow_run where
  "run7 = \<lparr>run_id = 7, run_name = None, run_parameters = [], state = Pending,
           state_name = ''Pending'', state_type = PENDING, parent_task_run_id = None\<rparr>"

text \<open>The Execution Context of an enclosing run with identifier 3.\<close>

definition outer_context :: flow_run_context where
  "outer_context =
     \<lparr>ctx_flow = ''outer'', ctx_log_prints = False, ctx_flow_run_id = Some 3,
      ctx_parameters = [], ctx_result_factory = ResultFactory ''outer''\<rparr>"

section \<open>Auxiliary facts\<close>

subsection \<open>The transition primitive and run-record creation\<close>

lemma set_state_short_circuit:
  "short_circuit eng \<Longrightarrow> set_state X s eng w = (engine_state eng, eng, w)"
  by (simp add: set_state_def)

lemma create_flow_run_top_level:
  assumes "contexts w = []" and "custom_flow_run_name (flow eng) (parameters eng) = Inr nm"
  shows "create_flow_run X eng cl w =
    (Inr (client_create_flow_run X (calls w) (flow_name (flow eng)) nm
            (serialize_parameters (flow eng) (parameters eng)) Pending None),
     w\<lparr>calls := calls w @
          [CreateFlowRun (flow_name (flow eng)) nm
             (serialize_parameters (flow eng) (parameters eng)) Pending None]\<rparr>)"
  using assms by (simp add: create_flow_run_def FlowRunContext_get_def Let_def)

lemma create_flow_run_nested:
  assumes "contexts w = ctx # rest" and "custom_flow_run_name (flow eng) (parameters eng) = Inr nm"
  shows "create_flow_run X eng cl w =
    (let t = \<lparr>task_name = flow_name (flow eng), task_version = flow_version (flow eng)\<rparr>;
         inputs = map (\<lambda>(k, v). (k, collect_task_run_inputs X v)) (parameters eng);
         key = dynamic_key_for_task_run X ctx t;
         child_call = CreateTaskRun t (ctx_flow_run_id ctx) key inputs Pending;
         child = client_create_task_run X (calls w) t (ctx_flow_run_id ctx) key inputs Pending;
         ps = serialize_parameters (flow eng) (parameters eng);
         run_call = CreateFlowRun (flow_name (flow eng)) nm ps Pending (Some (task_run_id child))
     in (Inr (client_create_flow_run X (calls w @ [child_call]) (flow_name (flow eng)) nm ps
                Pending (Some (task_run_id child))),
         w\<lparr>calls := calls w @ [child_call, run_call]\<rparr>))"
  using assms
  by (simp add: create_flow_run_def FlowRunContext_get_def create_subflow_task_run_def Let_def)

lemma set_state_live:
  assumes "\<not> short_circuit eng" and "u_is_started eng" and "u_client eng \<noteq> None"
    and "flow_run eng = Some fr"
  shows "set_state X s eng w =
    (Inr (propose_state X (calls w) s (run_id fr)),
     eng\<lparr>flow_run := Some (fr\<lparr>state := propose_state X (calls w) s (run_id fr),
                              state_name := name (propose_state X (calls w) s (run_id fr)),
                              state_type := type (propose_state X (calls w) s (run_id fr))\<rparr>)\<rparr>,
     w\<lparr>calls := calls w @ [ProposeState s (run_id fr)]\<rparr>)"
  using assms by (auto simp add: set_state_def client_def Let_def)

subsection \<open>The start scope and the driver block on a run that is at hand\<close>

lemma pending_loop_not_pending:
  "\<not> is_pending run \<Longrightarrow> pending_loop X n run w = Some (Inr (), run, w)"
  by (cases n) simp_all

lemma running_loop_not_running:
  "\<not> is_running run \<Longrightarrow> running_loop X n f rt run w = Some (Inr None, run, w)"
  by (cases n) simp_all

lemma attach_flow_run_at_hand:
  assumes "run_record_at_hand (flow eng) (parameters eng) (flow_run eng)"
  shows "\<exists>r w'. attach_flow_run X cl eng w = (Inr (), eng\<lparr>flow_run := Some r\<rparr>, w') \<and>
           invocations w' = invocations w \<and> events w' = events w \<and> contexts w' = contexts w \<and>
           (flow_run eng \<noteq> None \<longrightarrow> flow_run eng = Some r)"
proof (cases "flow_run eng")
  case (Some r)
  then have "attach_flow_run X cl eng w = (Inr (), eng\<lparr>flow_run := Some r\<rparr>, w)"
    by (simp add: attach_flow_run_def)
  with Some show ?thesis by blast
next
  case None
  with assms obtain nm where nm: "custom_flow_run_name (flow eng) (parameters eng) = Inr nm"
    by (auto simp add: run_record_at_hand_def split: sum.splits)
  show ?thesis
  proof (cases "contexts w")
    case Nil
    show ?thesis
      using None create_flow_run_top_level [OF Nil nm, of X cl]
      by (auto simp add: attach_flow_run_def)
  next
    case (Cons c cs)
    show ?thesis
      using None create_flow_run_nested [OF Cons nm, of X cl]
      by (auto simp add: attach_flow_run_def Let_def)
  qed
qed

lemma validate_flow_parameters_valid:
  assumes "validated_parameters (flow eng) (parameters eng) = Inr ps"
  shows "validate_flow_parameters X eng w = (Inr (), eng\<lparr>parameters := ps\<rparr>, w)"
  using assms
  by (auto simp add: validate_flow_parameters_def validated_parameters_def split: if_splits)

lemma start_enter_valid:
  assumes "run_record_at_hand (flow eng) (parameters eng) (flow_run eng)"
    and "validated_parameters (flow eng) (parameters eng) = Inr ps"
  shows "\<exists>r wa. start_enter X eng w =
            (Inr (), eng\<lparr>u_client := Some PrefectClient, u_is_started := True,
                          flow_run := Some r, parameters := ps\<rparr>, wa) \<and>
           invocations wa = invocations w \<and> (flow_run eng \<noteq> None \<longrightarrow> flow_run eng = Some r)"
proof -
  let ?e1 = "eng\<lparr>u_client := Some PrefectClient, u_is_started := True\<rparr>"
  have "run_record_at_hand (flow ?e1) (parameters ?e1) (flow_run ?e1)"
    using assms(1) by simp
  from attach_flow_run_at_hand [OF this, of X PrefectClient "acquire_client w"]
  obtain r wa where
    att: "attach_flow_run X PrefectClient ?e1 (acquire_client w) = (Inr (), ?e1\<lparr>flow_run := Some r\<rparr>, wa)"
    and inv: "invocations wa = invocations (acquire_client w)"
    and same: "flow_run ?e1 \<noteq> None \<longrightarrow> flow_run ?e1 = Some r"
    by blast
  have "validated_parameters (flow (?e1\<lparr>flow_run := Some r\<rparr>)) (parameters (?e1\<lparr>flow_run := Some r\<rparr>)) = Inr ps"
    using assms(2) by simp
  from validate_flow_parameters_valid [OF this, of X wa]
  have val: "validate_flow_parameters X (?e1\<lparr>flow_run := Some r\<rparr>) wa =
               (Inr (), ?e1\<lparr>flow_run := Some r, parameters := ps\<rparr>, wa)"
    by simp
  have "start_enter X eng w =
          (Inr (), ?e1\<lparr>flow_run := Some r, parameters := ps\<rparr>,
           enter_context (FlowRunContext (?e1\<lparr>flow_run := Some r, parameters := ps\<rparr>)) wa)"
    using att val by (simp add: start_enter_def Let_def)
  moreover have "invocations (enter_context (FlowRunContext (?e1\<lparr>flow_run := Some r, parameters := ps\<rparr>)) wa) = invocations w"
    using inv by (simp add: enter_context_def acquire_client_def)
  ultimately show ?thesis using same by auto
qed


lemma exception_to_failed_state_type [simp]:
  "type (exception_to_failed_state exc msg rf) = FAILED"
  "data (exception_to_failed_state exc msg rf) = ExceptionData exc"
  by (simp_all add: exception_to_failed_state_def)

lemma exception_to_failed_state_factory:
  "exception_to_failed_state exc msg rf = exception_to_failed_state exc msg None"
  by (simp add: exception_to_failed_state_def)

lemma run_flow_body_failure:
  assumes "\<not> short_circuit run" and "u_is_started run" and "u_client run \<noteq> None"
    and "flow_run run = Some r"
    and "accepts X Running"
    and "accepts X (exception_to_failed_state exc ''Flow run encountered an exception:'' None)"
    and "awaited_call f (invocations w) (parameters run) = Inl exc"
  shows "\<exists>a run' w'. type a = FAILED \<and> data a = ExceptionData exc \<and>
           flow_run run' = Some (r\<lparr>state := a, state_name := name a, state_type := type a\<rparr>) \<and>
           invocations w' = Suc (invocations w) \<and>
           run_flow_body X (Suc n) f rt run w =
             Some (case rt of ReturnState \<Rightarrow> Inr (ReturnedState a)
                   | ReturnResult \<Rightarrow> Inl (FailedRun (Some exc)), run', w')"
proof -
  let ?a1 = "propose_state X (calls w) Running (run_id r)"
  let ?r1 = "r\<lparr>state := ?a1, state_name := name ?a1, state_type := type ?a1\<rparr>"
  let ?run1 = "run\<lparr>flow_run := Some ?r1\<rparr>"
  let ?w1 = "w\<lparr>calls := calls w @ [ProposeState Running (run_id r)]\<rparr>"
  have a1: "type ?a1 = RUNNING"
    using assms(5) by (simp add: accepts_def Running_def)
  have b: "begin_run X run w = (Inr ?a1, ?run1, ?w1)"
    using assms(1-4) by (simp add: begin_run_def set_state_live)
  have p: "pending_loop X (Suc n) ?run1 ?w1 = Some (Inr (), ?run1, ?w1)"
    using a1 by (simp add: pending_loop_not_pending is_pending_def state_is_pending_def)
  have run1: "is_running ?run1"
    using a1 by (simp add: is_running_def state_is_running_def)
  let ?w2 = "?w1\<lparr>invocations := Suc (invocations w)\<rparr>"
  have c: "call_fn_await f (parameters ?run1) ?w1 = (Inl exc, ?w2)"
    using assms(7) by (simp add: call_fn_await_def)
  let ?s = "exception_to_failed_state exc ''Flow run encountered an exception:''
              (map_option ctx_result_factory (FlowRunContext_get ?w2))"
  let ?a2 = "propose_state X (calls ?w2) ?s (run_id r)"
  let ?run2 = "?run1\<lparr>flow_run := Some (?r1\<lparr>state := ?a2, state_name := name ?a2, state_type := type ?a2\<rparr>)\<rparr>"
  let ?w3 = "?w2\<lparr>calls := calls ?w2 @ [ProposeState ?s (run_id r)]\<rparr>"
  have s: "?s = exception_to_failed_state exc ''Flow run encountered an exception:'' None"
    by (rule exception_to_failed_state_factory)
  have a2: "type ?a2 = FAILED" "data ?a2 = ExceptionData exc"
    using assms(6) unfolding s by (simp_all add: accepts_def)
  have h: "handle_exception X exc None None ?run1 ?w2 = (Inr ?a2, ?run2, ?w3)"
    using assms(1-4) by (simp add: handle_exception_def Let_def set_state_live)
  have not_running: "\<not> is_running ?run2"
    using a2 by (simp add: is_running_def state_is_running_def)
  have l: "running_loop X (Suc n) f rt ?run1 ?w1 = Some (Inr None, ?run2, ?w3)"
    using run1 c h running_loop_not_running [OF not_running] by simp
  have st: "engine_state ?run2 = Inr ?a2"
    by (simp add: engine_state_def)
  have res: "result ?run2 True = Inl (FailedRun (Some exc))"
    using a2 by (simp add: result_def engine_state_def state_result_def)
  have "run_flow_body X (Suc n) f rt run w =
          Some (case rt of ReturnState \<Rightarrow> Inr (ReturnedState ?a2)
                | ReturnResult \<Rightarrow> Inl (FailedRun (Some exc)), ?run2, ?w3)"
    unfolding run_flow_body_def using b p l st res by (cases rt) simp_all
  moreover have "flow_run ?run2 = Some (r\<lparr>state := ?a2, state_name := name ?a2, state_type := type ?a2\<rparr>)"
    by simp
  moreover have "invocations ?w3 = Suc (invocations w)"
    by simp
  ultimately show ?thesis using a2 by blast
qed

lemma validate_flow_parameters_invalid:
  assumes "\<not> short_circuit eng" and "u_is_started eng" and "u_client eng \<noteq> None"
    and "flow_run eng = Some r"
    and "should_validate_parameters (flow eng)"
    and "validate_parameters (flow eng) (parameters eng) = Inl exc"
  shows "validate_flow_parameters X eng w =
    (let s = exception_to_failed_state exc ''Validation of flow parameters failed with error''
               (Some (ResultFactory_from_flow (flow eng)));
         a = propose_state X (calls w) s (run_id r)
     in (Inr (),
         eng\<lparr>flow_run := Some (r\<lparr>state := a, state_name := name a, state_type := type a\<rparr>),
             short_circuit := True\<rparr>,
         w\<lparr>calls := calls w @ [ProposeState s (run_id r)]\<rparr>))"
  using assms
  by (simp add: validate_flow_parameters_def handle_exception_def Let_def set_state_live)

lemma run_flow_body_short_circuited:
  assumes "short_circuit run" and "flow_run run = Some r" and "type (state r) = FAILED"
  shows "run_flow_body X fuel f rt run w =
           Some (case rt of ReturnState \<Rightarrow> Inr (ReturnedState (state r))
                 | ReturnResult \<Rightarrow>
                     Inl (FailedRun (case data (state r) of ExceptionData e \<Rightarrow> Some e | _ \<Rightarrow> None)),
                 run, w)"
proof -
  have st: "engine_state run = Inr (state r)"
    using assms(2) by (simp add: engine_state_def)
  have b: "begin_run X run w = (Inr (state r), run, w)"
    using assms(1) by (simp add: begin_run_def set_state_short_circuit st)
  have np: "\<not> is_pending run" and nr: "\<not> is_running run"
    using assms(2,3) by (simp_all add: is_pending_def is_running_def state_is_pending_def state_is_running_def)
  have res: "result run True = Inl (FailedRun (case data (state r) of ExceptionData e \<Rightarrow> Some e | _ \<Rightarrow> None))"
    using assms(2,3) by (simp add: result_def engine_state_def state_result_def)
  show ?thesis
    unfolding run_flow_body_def
    using b pending_loop_not_pending [OF np] running_loop_not_running [OF nr] st res
    by (cases rt) simp_all
qed

subsection \<open>Run-record creation never fails on a \<^verbatim>\<open>TypeError\<close> of the name resolution\<close>

lemma custom_flow_run_name_TypeError:
  "resolve_custom_flow_run_name f ps = Inl (TypeError m) \<Longrightarrow> custom_flow_run_name f ps = Inr None"
  by (simp add: custom_flow_run_name_def)

lemma set_state_ready:
  assumes "u_is_started eng" and "u_client eng \<noteq> None" and "flow_run eng \<noteq> None"
  shows "\<exists>a eng' w'. set_state X s eng w = (Inr a, eng', w')"
proof (cases "short_circuit eng")
  case True
  with assms(3) show ?thesis
    by (auto simp add: set_state_short_circuit engine_state_def)
next
  case False
  from assms(3) obtain fr where "flow_run eng = Some fr" by blast
  from set_state_live [OF False assms(1,2) this] show ?thesis by blast
qed

lemma validate_flow_parameters_ready:
  assumes "u_is_started eng" and "u_client eng \<noteq> None" and "flow_run eng \<noteq> None"
  shows "\<exists>eng' w'. validate_flow_parameters X eng w = (Inr (), eng', w')"
proof (cases "should_validate_parameters (flow eng)")
  case False
  then show ?thesis by (simp add: validate_flow_parameters_def)
next
  case True
  show ?thesis
  proof (cases "validate_parameters (flow eng) (parameters eng)")
    case (Inr ps)
    with True show ?thesis by (simp add: validate_flow_parameters_def)
  next
    case (Inl exc)
    obtain a eng' w' where
      "handle_exception X exc (Some ''Validation of flow parameters failed with error'')
         (Some (ResultFactory_from_flow (flow eng))) eng w = (Inr a, eng', w')"
      using set_state_ready [OF assms] unfolding handle_exception_def Let_def by blast
    with True Inl show ?thesis by (simp add: validate_flow_parameters_def)
  qed
qed

lemma start_enter_at_hand:
  assumes "run_record_at_hand (flow eng) (parameters eng) (flow_run eng)"
  shows "fst (start_enter X eng w) = Inr ()" and "fst (start_sync_enter X eng w) = Inr ()"
proof -
  let ?e1 = "eng\<lparr>u_client := Some PrefectClient, u_is_started := True\<rparr>"
  have "run_record_at_hand (flow ?e1) (parameters ?e1) (flow_run ?e1)"
    using assms by simp
  from attach_flow_run_at_hand [OF this, of X PrefectClient "acquire_client w"]
  obtain r wa where
    att: "attach_flow_run X PrefectClient ?e1 (acquire_client w) = (Inr (), ?e1\<lparr>flow_run := Some r\<rparr>, wa)"
    by blast
  obtain e3 w3 where val: "validate_flow_parameters X (?e1\<lparr>flow_run := Some r\<rparr>) wa = (Inr (), e3, w3)"
    using validate_flow_parameters_ready [of "?e1\<lparr>flow_run := Some r\<rparr>" X wa] by auto
  show "fst (start_enter X eng w) = Inr ()"
    using att val by (simp add: start_enter_def Let_def)
  show "fst (start_sync_enter X eng w) = Inr ()"
    using att val by (simp add: start_sync_enter_def Let_def)
qed

subsection \<open>The concrete collaborators and work definitions\<close>

lemma accepting_simps:
  "propose_state accepting cs s i = s"
  "client_create_flow_run accepting cs fname nm ps st parent =
     \<lparr>run_id = length cs, run_name = nm, run_parameters = ps, state = st,
      state_name = name st, state_type = type st, parent_task_run_id = parent\<rparr>"
  "client_create_task_run accepting cs t frid key inputs st =
     \<lparr>task_run_id = length cs, task_run_flow_run_id = frid\<rparr>"
  "collect_task_run_inputs accepting v = []"
  "dynamic_key_for_task_run accepting c t = task_name t"
  by (simp_all add: accepting_def)


lemma add_one_simps:
  "flow_name add_one = ''add_one''" "flow_version add_one = None"
  "should_validate_parameters add_one" "validate_parameters add_one = validate_x_int"
  "resolve_custom_flow_run_name add_one = no_custom_name"
  "serialize_parameters add_one ps = ps" "log_prints add_one = None"
  by (simp_all add: add_one_def)

lemma FlowRunEngine_simps:
  "flow (FlowRunEngine f ps fr) = f"
  "parameters (FlowRunEngine f (Some p) fr) = p"
  "parameters (FlowRunEngine f None fr) = []"
  "flow_run (FlowRunEngine f ps fr) = fr"
  "\<not> u_is_started (FlowRunEngine f ps fr)"
  "u_client (FlowRunEngine f ps fr) = None"
  "\<not> short_circuit (FlowRunEngine f ps fr)"
  by (simp_all add: FlowRunEngine_def)

lemma accepts_accepting: "accepts accepting s"
  by (simp add: accepts_def accepting_simps)

lemmas engine_defs =
  run_flow_def run_flow_sync_def start_def start_sync_def start_enter_def start_sync_enter_def
  start_exit_def start_sync_exit_def attach_flow_run_def validate_flow_parameters_def
  create_flow_run_def create_subflow_task_run_def custom_flow_run_name_def
  FlowRunContext_get_def FlowRunContext_def ResultFactory_from_flow_def
  enter_context_def exit_context_def acquire_client_def release_client_def
  run_flow_body_def run_flow_sync_body_def begin_run_def set_state_def client_def
  engine_state_def result_def state_result_def handle_success_def handle_exception_def
  exception_to_failed_state_def is_running_def is_pending_def state_is_running_def
  state_is_pending_def call_fn_def call_fn_await_def awaited_call_def await_def sleep_def
  FlowRunEngine_def
  Pending_def Running_def Completed_def

lemmas example_defs =
  accepting_def coercing_def retrying_def already_completed_def add_one_def boom_def flaky_def
  badly_named_def badly_named_boom_def as_coroutine_def
  unchecked_body_def no_custom_name_def validate_x_int_def world0_def x_is_def run7_def
  outer_context_def observed_def

lemmas projection_defs = summary_def events_after_def client_after_def

subsection \<open>The start scope when validation fails\<close>

lemma start_enter_invalid:
  assumes "run_record_at_hand (flow eng) (parameters eng) (flow_run eng)"
    and "\<not> short_circuit eng"
    and "should_validate_parameters (flow eng)"
    and "validate_parameters (flow eng) (parameters eng) = Inl exc"
  shows "\<exists>r a wa cs.
           a = propose_state X cs
                 (exception_to_failed_state exc ''Validation of flow parameters failed with error''
                    (Some (ResultFactory_from_flow (flow eng)))) (run_id r) \<and>
           start_enter X eng w =
             (Inr (), eng\<lparr>u_client := Some PrefectClient, u_is_started := True,
                           flow_run := Some (r\<lparr>state := a, state_name := name a, state_type := type a\<rparr>),
                           short_circuit := True\<rparr>, wa) \<and>
           invocations wa = invocations w"
proof -
  let ?e1 = "eng\<lparr>u_client := Some PrefectClient, u_is_started := True\<rparr>"
  have "run_record_at_hand (flow ?e1) (parameters ?e1) (flow_run ?e1)"
    using assms(1) by simp
  from attach_flow_run_at_hand [OF this, of X PrefectClient "acquire_client w"]
  obtain r wa where
    att: "attach_flow_run X PrefectClient ?e1 (acquire_client w) = (Inr (), ?e1\<lparr>flow_run := Some r\<rparr>, wa)"
    and inv: "invocations wa = invocations (acquire_client w)"
    by blast
  let ?e2 = "?e1\<lparr>flow_run := Some r\<rparr>"
  let ?s = "exception_to_failed_state exc ''Validation of flow parameters failed with error''
              (Some (ResultFactory_from_flow (flow eng)))"
  let ?a = "propose_state X (calls wa) ?s (run_id r)"
  have "\<not> short_circuit ?e2" "u_is_started ?e2" "u_client ?e2 \<noteq> None" "flow_run ?e2 = Some r"
    "should_validate_parameters (flow ?e2)" "validate_parameters (flow ?e2) (parameters ?e2) = Inl exc"
    using assms(2-4) by simp_all
  from validate_flow_parameters_invalid [OF this, of X wa]
  have val: "validate_flow_parameters X ?e2 wa =
               (Inr (),
                ?e2\<lparr>flow_run := Some (r\<lparr>state := ?a, state_name := name ?a, state_type := type ?a\<rparr>),
                     short_circuit := True\<rparr>,
                wa\<lparr>calls := calls wa @ [ProposeState ?s (run_id r)]\<rparr>)"
    by (simp add: Let_def)
  let ?e3 = "?e2\<lparr>flow_run := Some (r\<lparr>state := ?a, state_name := name ?a, state_type := type ?a\<rparr>),
                  short_circuit := True\<rparr>"
  let ?w3 = "enter_context (FlowRunContext ?e3) (wa\<lparr>calls := calls wa @ [ProposeState ?s (run_id r)]\<rparr>)"
  have "start_enter X eng w = (Inr (), ?e3, ?w3)"
    using att val by (simp add: start_enter_def Let_def)
  moreover have "invocations ?w3 = invocations w"
    using inv by (simp add: enter_context_def acquire_client_def)
  moreover have "?e3 = eng\<lparr>u_client := Some PrefectClient, u_is_started := True,
                           flow_run := Some (r\<lparr>state := ?a, state_name := name ?a, state_type := type ?a\<rparr>),
                           short_circuit := True\<rparr>"
    by simp
  ultimately show ?thesis by metis
qed

subsection \<open>What leaving a start scope releases and resets\<close>

lemma start_exit_events:
  "events (snd (snd (start_exit r eng w))) = events w @ [ContextExited, ClientReleased]"
  by (cases r) (simp_all add: start_exit_def Let_def release_client_def exit_context_def)

lemma start_sync_exit_events_returned:
  "events (snd (snd (start_sync_exit (Inr v) eng w))) = events w @ [ContextExited, ClientReleased]"
  by (simp add: start_sync_exit_def Let_def release_client_def exit_context_def)

lemma start_sync_exit_events_raised:
  "events (snd (snd (start_sync_exit (Inl e) eng w))) = events w @ [ContextExited]"
  by (simp add: start_sync_exit_def Let_def exit_context_def)

lemma client_before_start:
  "client (FlowRunEngine f ps fr) = Inl (RuntimeError ''Engine has not started.'')"
  by (simp add: client_def FlowRunEngine_def)

lemma client_after_start_sync_exit:
  "client (fst (snd (start_sync_exit r eng w))) = Inl (RuntimeError ''Engine has not started.'')"
  by (cases r) (simp_all add: start_sync_exit_def Let_def client_def)

lemma client_after_start_exit_returned:
  "client (fst (snd (start_exit (Inr v) eng w))) = Inl (RuntimeError ''Engine has not started.'')"
  by (simp add: start_exit_def Let_def client_def)

lemma engine_after_start_exit_raised:
  "fst (snd (start_exit (Inl e) eng w)) = eng"
  by (simp add: start_exit_def Let_def)

lemma start_raising_body:
  assumes "start_enter X eng w = (Inr u, run1, w1)" and "body run1 w1 = Some (Inl e, run2, w2)"
  shows "start X body eng w = Some (Inl e, run2, release_client (exit_context w2))"
  using assms by (simp add: start_def start_exit_def Let_def)

lemma start_sync_raising_body:
  assumes "start_sync_enter X eng w = (Inr u, run1, w1)" and "body run1 w1 = Some (Inl e, run2, w2)"
  shows "start_sync X body eng w =
           Some (Inl e, run2\<lparr>u_is_started := False, u_client := None\<rparr>, exit_context w2)"
  using assms by (simp add: start_sync_def start_sync_exit_def Let_def)

subsection \<open>The cooperative driver on a coroutine function and the blocking driver on its body\<close>

text \<open>
  The engine of the cooperative driver differs from that of the blocking driver in the
  form of the callable only, which no method of the engine calls: every method does the
  same on both.
\<close>

lemma as_coroutine_simps:
  "flow_name (as_coroutine f) = flow_name f"
  "flow_version (as_coroutine f) = flow_version f"
  "should_validate_parameters (as_coroutine f) = should_validate_parameters f"
  "validate_parameters (as_coroutine f) = validate_parameters f"
  "resolve_custom_flow_run_name (as_coroutine f) = resolve_custom_flow_run_name f"
  "serialize_parameters (as_coroutine f) = serialize_parameters f"
  "log_prints (as_coroutine f) = log_prints f"
  by (simp_all add: as_coroutine_def)

lemma awaited_call_as_coroutine: "awaited_call (as_coroutine f) k ps = fn f k ps"
  by (simp add: awaited_call_def as_coroutine_def await_def)

lemma with_coroutine_simps:
  "flow (with_coroutine eng) = as_coroutine (flow eng)"
  "parameters (with_coroutine eng) = parameters eng"
  "flow_run (with_coroutine eng) = flow_run eng"
  "u_is_started (with_coroutine eng) = u_is_started eng"
  "u_client (with_coroutine eng) = u_client eng"
  "short_circuit (with_coroutine eng) = short_circuit eng"
  "with_coroutine (eng\<lparr>flow_run := fr\<rparr>) = with_coroutine eng\<lparr>flow_run := fr\<rparr>"
  "with_coroutine (eng\<lparr>parameters := ps\<rparr>) = with_coroutine eng\<lparr>parameters := ps\<rparr>"
  "with_coroutine (eng\<lparr>short_circuit := b\<rparr>) = with_coroutine eng\<lparr>short_circuit := b\<rparr>"
  "with_coroutine (eng\<lparr>u_client := c\<rparr>) = with_coroutine eng\<lparr>u_client := c\<rparr>"
  "with_coroutine (eng\<lparr>u_is_started := b\<rparr>) = with_coroutine eng\<lparr>u_is_started := b\<rparr>"
  by (simp_all add: with_coroutine_def)

lemma FlowRunEngine_as_coroutine:
  "FlowRunEngine (as_coroutine f) ps fr = with_coroutine (FlowRunEngine f ps fr)"
  by (simp add: FlowRunEngine_def with_coroutine_def)

lemma engine_state_with_coroutine: "engine_state (with_coroutine eng) = engine_state eng"
  by (simp add: engine_state_def with_coroutine_simps)

lemma is_pending_with_coroutine: "is_pending (with_coroutine eng) = is_pending eng"
  by (simp add: is_pending_def with_coroutine_simps)

lemma is_running_with_coroutine: "is_running (with_coroutine eng) = is_running eng"
  by (simp add: is_running_def with_coroutine_simps)

lemma result_with_coroutine: "result (with_coroutine eng) b = result eng b"
  by (simp add: result_def engine_state_with_coroutine)

lemma set_state_with_coroutine:
  "set_state X s (with_coroutine eng) w =
     (case set_state X s eng w of (r, eng', w') \<Rightarrow> (r, with_coroutine eng', w'))"
  by (simp add: set_state_def client_def engine_state_with_coroutine with_coroutine_simps Let_def
      split: option.splits bool.splits sum.splits)

lemma begin_run_with_coroutine:
  "begin_run X (with_coroutine eng) w =
     (case begin_run X eng w of (r, eng', w') \<Rightarrow> (r, with_coroutine eng', w'))"
  by (simp add: begin_run_def set_state_with_coroutine)

lemma handle_success_with_coroutine:
  "handle_success X v (with_coroutine eng) w =
     (case handle_success X v eng w of (r, eng', w') \<Rightarrow> (r, with_coroutine eng', w'))"
  by (simp add: handle_success_def set_state_with_coroutine split: prod.splits sum.splits)

lemma handle_exception_with_coroutine:
  "handle_exception X exc msg rf (with_coroutine eng) w =
     (case handle_exception X exc msg rf eng w of (r, eng', w') \<Rightarrow> (r, with_coroutine eng', w'))"
  by (simp add: handle_exception_def Let_def set_state_with_coroutine)

lemma pending_loop_with_coroutine:
  "pending_loop X n (with_coroutine run) w =
     map_option (\<lambda>(r, run', w'). (r, with_coroutine run', w')) (pending_loop_sync X n run w)"
  by (induction n arbitrary: run w)
     (auto simp add: is_pending_with_coroutine begin_run_with_coroutine split: prod.splits sum.splits)

lemma call_fn_await_as_coroutine:
  "call_fn_await (as_coroutine f) ps w = call_fn f ps w"
  by (simp add: call_fn_await_def call_fn_def awaited_call_as_coroutine)

lemma running_loop_with_coroutine:
  "running_loop X n (as_coroutine f) rt (with_coroutine run) w =
     map_option (\<lambda>(r, run', w'). (r, with_coroutine run', w')) (running_loop_sync X n f rt run w)"
  by (induction n arbitrary: run w)
     (auto simp add: is_running_with_coroutine call_fn_await_as_coroutine with_coroutine_simps
        handle_success_with_coroutine handle_exception_with_coroutine
        split: prod.splits sum.splits)

lemma run_flow_body_with_coroutine:
  "run_flow_body X n (as_coroutine f) rt (with_coroutine run) w =
     map_option (\<lambda>(r, run', w'). (r, with_coroutine run', w')) (run_flow_sync_body X n f rt run w)"
proof (cases "begin_run X run w")
  case (fields r0 run1 w1)
  note b = this
  show ?thesis
  proof (cases r0)
    case (Inl e)
    with b show ?thesis
      by (simp add: run_flow_body_def run_flow_sync_body_def begin_run_with_coroutine)
  next
    case (Inr s0)
    show ?thesis
    proof (cases "pending_loop_sync X n run1 w1")
      case None
      with b Inr show ?thesis
        by (simp add: run_flow_body_def run_flow_sync_body_def begin_run_with_coroutine
            pending_loop_with_coroutine)
    next
      case (Some p)
      obtain r2 run2 w2 where p: "p = (r2, run2, w2)" by (cases p)
      show ?thesis
      proof (cases r2)
        case (Inl e)
        with b Inr Some p show ?thesis
          by (simp add: run_flow_body_def run_flow_sync_body_def begin_run_with_coroutine
              pending_loop_with_coroutine)
      next
        case (Inr u)
        note r2 = this
        show ?thesis
        proof (cases "running_loop_sync X n f rt run2 w2")
          case None
          with b \<open>r0 = Inr s0\<close> Some p r2 show ?thesis
            by (simp add: run_flow_body_def run_flow_sync_body_def begin_run_with_coroutine
                pending_loop_with_coroutine running_loop_with_coroutine)
        next
          case (Some q)
          obtain r3 run3 w3 where q: "q = (r3, run3, w3)" by (cases q)
          from b \<open>r0 = Inr s0\<close> \<open>pending_loop_sync X n run1 w1 = Some p\<close> p r2 Some q
          show ?thesis
            by (simp add: run_flow_body_def run_flow_sync_body_def begin_run_with_coroutine
                pending_loop_with_coroutine running_loop_with_coroutine
                engine_state_with_coroutine result_with_coroutine
                split: sum.splits option.splits)
        qed
      qed
    qed
  qed
qed

lemma custom_flow_run_name_as_coroutine:
  "custom_flow_run_name (as_coroutine f) ps = custom_flow_run_name f ps"
  by (simp add: custom_flow_run_name_def as_coroutine_simps)

lemma create_flow_run_with_coroutine:
  "create_flow_run X (with_coroutine eng) cl w = create_flow_run X eng cl w"
proof -
  have a: "create_subflow_task_run X (with_coroutine eng) = create_subflow_task_run X eng"
    by (intro ext) (simp add: create_subflow_task_run_def with_coroutine_simps as_coroutine_simps)
  show ?thesis
    unfolding create_flow_run_def a with_coroutine_simps as_coroutine_simps
      custom_flow_run_name_as_coroutine
    by (rule refl)
qed

lemma attach_flow_run_with_coroutine:
  "attach_flow_run X cl (with_coroutine eng) w =
     (case attach_flow_run X cl eng w of (r, eng', w') \<Rightarrow> (r, with_coroutine eng', w'))"
proof (cases "flow_run eng")
  case (Some r)
  then show ?thesis
    by (simp add: attach_flow_run_def with_coroutine_simps)
next
  case None
  obtain r w' where c: "create_flow_run X eng cl w = (r, w')"
    by (cases "create_flow_run X eng cl w")
  with None show ?thesis
    by (cases r)
       (simp_all add: attach_flow_run_def create_flow_run_with_coroutine with_coroutine_simps)
qed

lemma validate_flow_parameters_with_coroutine:
  "validate_flow_parameters X (with_coroutine eng) w =
     (case validate_flow_parameters X eng w of (r, eng', w') \<Rightarrow> (r, with_coroutine eng', w'))"
proof (cases "should_validate_parameters (flow eng)")
  case False
  then show ?thesis
    by (simp add: validate_flow_parameters_def with_coroutine_simps as_coroutine_simps)
next
  case True
  show ?thesis
  proof (cases "validate_parameters (flow eng) (parameters eng)")
    case (Inr ps)
    with True show ?thesis
      by (simp add: validate_flow_parameters_def with_coroutine_simps as_coroutine_simps)
  next
    case (Inl exc)
    obtain r e' w' where h:
      "handle_exception X exc (Some ''Validation of flow parameters failed with error'')
         (Some (ResultFactory_from_flow (flow eng))) eng w = (r, e', w')"
      by (cases "handle_exception X exc (Some ''Validation of flow parameters failed with error'')
         (Some (ResultFactory_from_flow (flow eng))) eng w")
    have rf: "ResultFactory_from_flow (as_coroutine (flow eng)) = ResultFactory_from_flow (flow eng)"
      by (simp add: ResultFactory_from_flow_def as_coroutine_simps)
    from True Inl h show ?thesis
      by (cases r)
         (simp_all add: validate_flow_parameters_def with_coroutine_simps as_coroutine_simps rf
            handle_exception_with_coroutine)
  qed
qed

lemma FlowRunContext_with_coroutine: "FlowRunContext (with_coroutine eng) = FlowRunContext eng"
  by (simp add: FlowRunContext_def with_coroutine_simps as_coroutine_simps ResultFactory_from_flow_def)

lemma start_enter_with_coroutine:
  "start_enter X (with_coroutine eng) w =
     (case start_enter X eng w of (r, eng', w') \<Rightarrow> (r, with_coroutine eng', w'))"
proof -
  let ?e1 = "eng\<lparr>u_client := Some PrefectClient, u_is_started := True\<rparr>"
  have e1: "with_coroutine eng\<lparr>u_client := Some PrefectClient, u_is_started := True\<rparr> =
              with_coroutine ?e1"
    by (simp add: with_coroutine_def)
  obtain r2 e2 w2 where a: "attach_flow_run X PrefectClient ?e1 (acquire_client w) = (r2, e2, w2)"
    by (cases "attach_flow_run X PrefectClient ?e1 (acquire_client w)")
  then have a': "attach_flow_run X PrefectClient (with_coroutine ?e1) (acquire_client w) =
                   (r2, with_coroutine e2, w2)"
    by (simp add: attach_flow_run_with_coroutine)
  show ?thesis
  proof (cases r2)
    case (Inl e)
    with a a' show ?thesis
      by (simp add: start_enter_def Let_def e1)
  next
    case (Inr u)
    obtain r3 e3 w3 where v: "validate_flow_parameters X e2 w2 = (r3, e3, w3)"
      by (cases "validate_flow_parameters X e2 w2")
    then have v': "validate_flow_parameters X (with_coroutine e2) w2 = (r3, with_coroutine e3, w3)"
      by (simp add: validate_flow_parameters_with_coroutine)
    from Inr a a' v v' show ?thesis
      by (cases r3) (simp_all add: start_enter_def Let_def e1 FlowRunContext_with_coroutine)
  qed
qed

lemma start_sync_enter_Inr:
  "start_enter X eng w = (Inr u, eng', w') \<Longrightarrow> start_sync_enter X eng w = (Inr u, eng', w')"
  by (auto simp add: start_enter_def start_sync_enter_def Let_def split: prod.splits sum.splits)

lemma start_sync_enter_Inl:
  "start_enter X eng w = (Inl e, eng', w') \<Longrightarrow>
     \<exists>eng'' w''. start_sync_enter X eng w = (Inl e, eng'', w'') \<and> flow_run eng'' = flow_run eng' \<and>
        calls w'' = calls w' \<and> invocations w'' = invocations w'"
  by (auto simp add: start_enter_def start_sync_enter_def Let_def release_client_def
      split: prod.splits sum.splits)

lemma start_exits_observed:
  "observed (Some (start_exit r (with_coroutine eng) w)) = observed (Some (start_sync_exit r eng w))"
  by (cases r)
     (simp_all add: observed_def start_sync_exit_def start_exit_def Let_def release_client_def
        exit_context_def with_coroutine_simps)

subsection \<open>The four scenarios of the drivers\<close>

text \<open>
  Immediate success, validation failure, one raised error answered by a retry and then
  success, and terminal failure: what a driver returns or raises, the type of the state
  the run record ends in, the short-circuit flag and the number of invocations of the
  callable; for the cooperative driver on coroutine functions, and for the blocking
  driver on the plain functions with the same bodies.
\<close>

lemma scenarios:
  "summary (run_flow accepting 1 (as_coroutine add_one) None (Some (x_is (IntV 4))) ReturnResult world0) =
     Some (Inr (Returned (IntV 5)), Some COMPLETED, False, 1)"
  "summary (run_flow accepting 1 (as_coroutine add_one) None (Some (x_is (StrV ''not-an-int'')))
              ReturnResult world0) =
     Some (Inl (FailedRun (Some (ParameterTypeError ''x is not an int''))), Some FAILED, True, 0)"
  "summary (run_flow retrying 2 (as_coroutine flaky) None (Some (x_is (IntV 4))) ReturnResult world0) =
     Some (Inr (Returned (IntV 7)), Some COMPLETED, False, 2)"
  "summary (run_flow accepting 1 (as_coroutine boom) None (Some (x_is (IntV 4))) ReturnResult world0) =
     Some (Inl (FailedRun (Some (ValueError ''boom''))), Some FAILED, False, 1)"
  by (simp_all add: engine_defs example_defs projection_defs Let_def numeral_2_eq_2)

lemma scenarios_sync:
  "summary (run_flow_sync accepting 1 add_one None (Some (x_is (IntV 4))) ReturnResult world0) =
     Some (Inr (Returned (IntV 5)), Some COMPLETED, False, 1)"
  "summary (run_flow_sync accepting 1 add_one None (Some (x_is (StrV ''not-an-int'')))
              ReturnResult world0) =
     Some (Inl (FailedRun (Some (ParameterTypeError ''x is not an int''))), Some FAILED, True, 0)"
  "summary (run_flow_sync retrying 2 flaky None (Some (x_is (IntV 4))) ReturnResult world0) =
     Some (Inr (Returned (IntV 7)), Some COMPLETED, False, 2)"
  "summary (run_flow_sync accepting 1 boom None (Some (x_is (IntV 4))) ReturnResult world0) =
     Some (Inl (FailedRun (Some (ValueError ''boom''))), Some FAILED, False, 1)"
  by (simp_all add: engine_defs example_defs projection_defs Let_def numeral_2_eq_2)

section \<open>The claims\<close>

subsection \<open>C1: a transition that is not short-circuited\<close>

text \<open>
  C1, as stated, for every engine whose short-circuit flag is not set and that holds a
  run record: \<^verbatim>\<open>set_state\<close> sends the proposal to the collaborator, overwrites the
  record's state fields with the accepted state and returns it.  The statement fails on
  an engine that has not been started: line 85 reads the \<^verbatim>\<open>client\<close> property first,
  whose guard (lines 63--64) raises; nothing is sent and the run record keeps its state.
\<close>

theorem set_state_unstarted_raises:
  "\<not> short_circuit (FlowRunEngine add_one None (Some run7)) \<and>
   flow_run (FlowRunEngine add_one None (Some run7)) = Some run7 \<and>
   set_state accepting Running (FlowRunEngine add_one None (Some run7)) world0 =
     (Inl (RuntimeError ''Engine has not started.''),
      FlowRunEngine add_one None (Some run7), world0)"
  by (simp add: set_state_def client_def FlowRunEngine_def)

text \<open>
  C1, amended: for every started engine (\<^verbatim>\<open>_is_started\<close> set and a client at hand)
  whose short-circuit flag is not set and that holds a run record, \<^verbatim>\<open>set_state\<close>
  sends the proposed state to the collaborator under the record's identifier,
  overwrites the record's \<^verbatim>\<open>state\<close>, \<^verbatim>\<open>state_name\<close> and \<^verbatim>\<open>state_type\<close> with the
  accepted state, whatever the collaborator made of the proposal, and returns the
  accepted state.
\<close>

theorem set_state_records_accepted:
  assumes "\<not> short_circuit eng" and "flow_run eng = Some fr"
    and "u_is_started eng" and "u_client eng = Some c"
  shows "set_state X proposed eng w =
    (let accepted = propose_state X (calls w) proposed (run_id fr)
     in (Inr accepted,
         eng\<lparr>flow_run := Some (fr\<lparr>state := accepted, state_name := name accepted,
                                  state_type := type accepted\<rparr>)\<rparr>,
         w\<lparr>calls := calls w @ [ProposeState proposed (run_id fr)]\<rparr>))"
  using assms by (simp add: set_state_live Let_def)

theorem set_state_records_accepted_witness:
  "\<not> short_circuit (FlowRunEngine add_one None (Some run7)\<lparr>u_is_started := True, u_client := Some PrefectClient\<rparr>) \<and>
   set_state coercing Completed
     (FlowRunEngine add_one None (Some run7)\<lparr>u_is_started := True, u_client := Some PrefectClient\<rparr>) world0 =
     (Inr Running,
      FlowRunEngine add_one None (Some run7)
        \<lparr>u_is_started := True, u_client := Some PrefectClient,
         flow_run := Some (run7\<lparr>state := Running, state_name := ''Running'', state_type := RUNNING\<rparr>)\<rparr>,
      world0\<lparr>calls := [ProposeState Completed 7]\<rparr>)"
proof -
  let ?e = "FlowRunEngine add_one None (Some run7)\<lparr>u_is_started := True, u_client := Some PrefectClient\<rparr>"
  have h1: "\<not> short_circuit ?e" and h2: "flow_run ?e = Some run7"
    and h3: "u_is_started ?e" and h4: "u_client ?e = Some PrefectClient"
    by (simp_all add: FlowRunEngine_def)
  show ?thesis
    using h1 set_state_records_accepted [OF h1 h2 h3 h4, of coercing Completed world0]
    by (simp add: Let_def coercing_def accepting_def Running_def run7_def world0_def FlowRunEngine_def)
qed

subsection \<open>C2: a validation failure\<close>

text \<open>
  C2, as stated, for every work definition with validation enabled and every parameter
  set that fails validation: the run becomes FAILED, the engine is short-circuited and
  the driver never invokes the callable.  The state that \<^verbatim>\<open>handle_exception\<close> records
  is the one the collaborator answers with.  A collaborator that grants a retry answers
  the FAILED proposal with a RUNNING state; the short-circuit flag then stops every
  later transition, but the driver's loop over \<^verbatim>\<open>is_running()\<close> reads the recorded
  state and invokes the callable, with the parameters that failed validation.
\<close>

theorem retry_after_validation_failure_invokes_callable:
  "should_validate_parameters unchecked_body \<and>
   validate_parameters unchecked_body (x_is (StrV ''not-an-int'')) =
     Inl (ParameterTypeError ''x is not an int'') \<and>
   summary (run_flow retrying 1 unchecked_body None (Some (x_is (StrV ''not-an-int'')))
              ReturnResult world0) =
     Some (Inr (Returned NoneV), Some RUNNING, True, 1)"
  by (simp add: engine_defs example_defs projection_defs Let_def)

text \<open>
  C2, amended: for every work definition with validation enabled and every parameter
  set that fails validation, on a run whose record is at hand and with a collaborator
  that accepts the proposed FAILED state, \<^verbatim>\<open>start()\<close> does not raise: it leaves the run
  record in the accepted FAILED state, which carries the validation error, and sets the
  short-circuit flag; and the driver, whatever its fuel and return type, ends without
  invoking the callable, returning that state or raising the error that wraps the
  validation error.
\<close>

theorem validation_failure_short_circuits:
  assumes "run_record_at_hand f ps fr"
    and "should_validate_parameters f"
    and "validate_parameters f ps = Inl exc"
    and "accepts X (exception_to_failed_state exc ''Validation of flow parameters failed with error''
                      (Some (ResultFactory_from_flow f)))"
  shows "(\<exists>run w' r.
            start_enter X (FlowRunEngine f (Some ps) fr) w = (Inr (), run, w') \<and>
            short_circuit run \<and> flow_run run = Some r \<and>
            type (state r) = FAILED \<and> data (state r) = ExceptionData exc \<and>
            invocations w' = invocations w) \<and>
         (\<forall>fuel rt. \<exists>run w' r.
            run_flow X fuel f fr (Some ps) rt w =
              Some (case rt of ReturnState \<Rightarrow> Inr (ReturnedState (state r))
                    | ReturnResult \<Rightarrow> Inl (FailedRun (Some exc)), run, w') \<and>
            flow_run run = Some r \<and>
            type (state r) = FAILED \<and> data (state r) = ExceptionData exc \<and>
            invocations w' = invocations w)"
proof -
  let ?e0 = "FlowRunEngine f (Some ps) fr"
  let ?s = "exception_to_failed_state exc ''Validation of flow parameters failed with error''
              (Some (ResultFactory_from_flow f))"
  have "run_record_at_hand (flow ?e0) (parameters ?e0) (flow_run ?e0)" "\<not> short_circuit ?e0"
    "should_validate_parameters (flow ?e0)" "validate_parameters (flow ?e0) (parameters ?e0) = Inl exc"
    using assms(1-3) by (simp_all add: FlowRunEngine_simps)
  from start_enter_invalid [OF this, of X w]
  obtain r a wa cs where a: "a = propose_state X cs ?s (run_id r)"
    and enter: "start_enter X ?e0 w =
             (Inr (), ?e0\<lparr>u_client := Some PrefectClient, u_is_started := True,
                           flow_run := Some (r\<lparr>state := a, state_name := name a, state_type := type a\<rparr>),
                           short_circuit := True\<rparr>, wa)"
    and inv: "invocations wa = invocations w"
    by (auto simp add: FlowRunEngine_simps)
  let ?r1 = "r\<lparr>state := a, state_name := name a, state_type := type a\<rparr>"
  let ?e1 = "?e0\<lparr>u_client := Some PrefectClient, u_is_started := True,
                  flow_run := Some ?r1, short_circuit := True\<rparr>"
  have ty: "type (state ?r1) = FAILED" and da: "data (state ?r1) = ExceptionData exc"
    using assms(4) a by (simp_all add: accepts_def)
  have sc: "short_circuit ?e1" and fr1: "flow_run ?e1 = Some ?r1"
    by simp_all
  have first: "\<exists>run w' r.
            start_enter X ?e0 w = (Inr (), run, w') \<and>
            short_circuit run \<and> flow_run run = Some r \<and>
            type (state r) = FAILED \<and> data (state r) = ExceptionData exc \<and>
            invocations w' = invocations w"
    using enter sc fr1 ty da inv by blast
  have second: "\<exists>run w' r.
            run_flow X fuel f fr (Some ps) rt w =
              Some (case rt of ReturnState \<Rightarrow> Inr (ReturnedState (state r))
                    | ReturnResult \<Rightarrow> Inl (FailedRun (Some exc)), run, w') \<and>
            flow_run run = Some r \<and>
            type (state r) = FAILED \<and> data (state r) = ExceptionData exc \<and>
            invocations w' = invocations w"
    for fuel rt
  proof -
    let ?out = "case rt of ReturnState \<Rightarrow> Inr (ReturnedState (state ?r1))
                | ReturnResult \<Rightarrow> Inl (FailedRun (Some exc))"
    from run_flow_body_short_circuited [OF sc fr1 ty, of X fuel f rt wa]
    have body: "run_flow_body X fuel f rt ?e1 wa = Some (?out, ?e1, wa)"
      using da by (cases rt) simp_all
    obtain run w' where ex: "start_exit ?out ?e1 wa = (?out, run, w')"
      and fr: "flow_run run = Some ?r1" and inv': "invocations w' = invocations wa"
      by (cases ?out)
         (simp_all add: start_exit_def Let_def release_client_def exit_context_def)
    have "run_flow X fuel f fr (Some ps) rt w = Some (?out, run, w')"
      using enter body ex by (simp add: run_flow_def start_def)
    with fr ty da inv inv' show ?thesis by metis
  qed
  from first second show ?thesis by blast
qed

theorem validation_failure_short_circuits_witness:
  "run_record_at_hand add_one (x_is (StrV ''not-an-int'')) None \<and>
   should_validate_parameters add_one \<and>
   validate_parameters add_one (x_is (StrV ''not-an-int'')) =
     Inl (ParameterTypeError ''x is not an int'') \<and>
   accepts accepting
     (exception_to_failed_state (ParameterTypeError ''x is not an int'')
        ''Validation of flow parameters failed with error''
        (Some (ResultFactory_from_flow add_one))) \<and>
   (\<exists>run w' r.
      start_enter accepting (FlowRunEngine add_one (Some (x_is (StrV ''not-an-int''))) None) world0 =
        (Inr (), run, w') \<and>
      short_circuit run \<and> flow_run run = Some r \<and> type (state r) = FAILED \<and>
      data (state r) = ExceptionData (ParameterTypeError ''x is not an int'') \<and>
      invocations w' = invocations world0) \<and>
   (\<exists>run w' r.
      run_flow accepting 5 add_one None (Some (x_is (StrV ''not-an-int''))) ReturnResult world0 =
        Some (Inl (FailedRun (Some (ParameterTypeError ''x is not an int''))), run, w') \<and>
      flow_run run = Some r \<and> type (state r) = FAILED \<and>
      data (state r) = ExceptionData (ParameterTypeError ''x is not an int'') \<and>
      invocations w' = invocations world0)"
proof -
  have h1: "run_record_at_hand add_one (x_is (StrV ''not-an-int'')) None"
    by (simp add: run_record_at_hand_def custom_flow_run_name_def add_one_simps no_custom_name_def)
  have h2: "should_validate_parameters add_one"
    by (simp add: add_one_simps)
  have h3: "validate_parameters add_one (x_is (StrV ''not-an-int'')) =
              Inl (ParameterTypeError ''x is not an int'')"
    by (simp add: add_one_simps validate_x_int_def x_is_def)
  have h4: "accepts accepting
     (exception_to_failed_state (ParameterTypeError ''x is not an int'')
        ''Validation of flow parameters failed with error''
        (Some (ResultFactory_from_flow add_one)))"
    by (rule accepts_accepting)
  note t = validation_failure_short_circuits [OF h1 h2 h3 h4, of world0]
  from t have a: "\<exists>run w' r.
      start_enter accepting (FlowRunEngine add_one (Some (x_is (StrV ''not-an-int''))) None) world0 =
        (Inr (), run, w') \<and>
      short_circuit run \<and> flow_run run = Some r \<and> type (state r) = FAILED \<and>
      data (state r) = ExceptionData (ParameterTypeError ''x is not an int'') \<and>
      invocations w' = invocations world0"
    by (rule conjunct1)
  from t have "\<exists>run w' r.
      run_flow accepting 5 add_one None (Some (x_is (StrV ''not-an-int''))) ReturnResult world0 =
        Some (case ReturnResult of ReturnState \<Rightarrow> Inr (ReturnedState (state r))
              | ReturnResult \<Rightarrow> Inl (FailedRun (Some (ParameterTypeError ''x is not an int''))), run, w') \<and>
      flow_run run = Some r \<and> type (state r) = FAILED \<and>
      data (state r) = ExceptionData (ParameterTypeError ''x is not an int'') \<and>
      invocations w' = invocations world0"
    by blast
  then have b: "\<exists>run w' r.
      run_flow accepting 5 add_one None (Some (x_is (StrV ''not-an-int''))) ReturnResult world0 =
        Some (Inl (FailedRun (Some (ParameterTypeError ''x is not an int''))), run, w') \<and>
      flow_run run = Some r \<and> type (state r) = FAILED \<and>
      data (state r) = ExceptionData (ParameterTypeError ''x is not an int'') \<and>
      invocations w' = invocations world0"
    by simp
  from h1 h2 h3 h4 a b show ?thesis by blast
qed

subsection \<open>C3: a callable that returns\<close>




subsection \<open>C4: a callable that raises\<close>

text \<open>
  C4, as stated, for every callable that raises, with a collaborator that accepts the
  proposed FAILED state: the driver ends in a FAILED state, which it returns for return
  type "state", and for return type "result" the result resolution raises the error
  that wraps the callable's exception.  On a callable that always raises
  \<^verbatim>\<open>ValueError\<close> the statement fails in three ways, each with a collaborator that
  accepts the FAILED proposal.  With a run name whose resolution raises \<^verbatim>\<open>KeyError\<close>,
  the driver raises that \<^verbatim>\<open>KeyError\<close> and no run record, so no FAILED state, exists.
  With parameters that fail validation, the callable is not invoked and the error that
  the result resolution raises wraps the validation error, not the callable's.  With a
  collaborator that answers the RUNNING proposal with a COMPLETED state (the run was
  completed elsewhere), the callable is not invoked and the state returned is COMPLETED.
\<close>

theorem raising_callable_without_failed_state:
  "awaited_call badly_named_boom (invocations world0) (x_is (IntV 4)) = Inl (ValueError ''boom'') \<and>
   summary (run_flow accepting 1 badly_named_boom None (Some (x_is (IntV 4))) ReturnState world0) =
     Some (Inl (KeyError ''y''), None, False, 0) \<and>
   summary (run_flow accepting 1 boom None (Some (x_is (StrV ''not-an-int''))) ReturnResult world0) =
     Some (Inl (FailedRun (Some (ParameterTypeError ''x is not an int''))), Some FAILED, True, 0) \<and>
   accepts already_completed
     (exception_to_failed_state (ValueError ''boom'') ''Flow run encountered an exception:'' None) \<and>
   summary (run_flow already_completed 1 boom None (Some (x_is (IntV 4))) ReturnState world0) =
     Some (Inr (ReturnedState Completed), Some COMPLETED, False, 0)"
proof -
  have "awaited_call badly_named_boom (invocations world0) (x_is (IntV 4)) = Inl (ValueError ''boom'')"
    by (simp add: awaited_call_def badly_named_boom_def boom_def)
  moreover have "summary (run_flow accepting 1 badly_named_boom None (Some (x_is (IntV 4)))
                            ReturnState world0) =
                   Some (Inl (KeyError ''y''), None, False, 0)"
    by (simp add: engine_defs example_defs projection_defs Let_def)
  moreover have "summary (run_flow accepting 1 boom None (Some (x_is (StrV ''not-an-int'')))
                            ReturnResult world0) =
                   Some (Inl (FailedRun (Some (ParameterTypeError ''x is not an int''))),
                         Some FAILED, True, 0)"
    by (simp add: engine_defs example_defs projection_defs Let_def)
  moreover have "accepts already_completed
     (exception_to_failed_state (ValueError ''boom'') ''Flow run encountered an exception:'' None)"
    by (simp add: accepts_def already_completed_def accepting_def exception_to_failed_state_def)
  moreover have "summary (run_flow already_completed 1 boom None (Some (x_is (IntV 4)))
                            ReturnState world0) =
                   Some (Inr (ReturnedState Completed), Some COMPLETED, False, 0)"
    by (simp add: engine_defs example_defs projection_defs Let_def)
  ultimately show ?thesis by blast
qed

text \<open>
  C4, amended: for every callable whose awaited invocation raises \<open>exc\<close>, on a run
  whose record is at hand, with valid parameters and with a collaborator that accepts
  the proposed RUNNING state and accepts the proposed FAILED state as terminal, the
  cooperative driver ends with the run record in a FAILED state that carries \<open>exc\<close>:
  with return type "state" it returns that state; with return type "result" the result
  resolution raises the error that wraps \<open>exc\<close>, and no value is returned.
\<close>

theorem run_flow_converts_exception:
  assumes "run_record_at_hand f ps fr"
    and "validated_parameters f ps = Inr ps'"
    and "accepts X Running"
    and "accepts X (exception_to_failed_state exc ''Flow run encountered an exception:'' None)"
    and "awaited_call f (invocations w) ps' = Inl exc"
  shows "(\<exists>run w' r.
            run_flow X (Suc n) f fr (Some ps) ReturnState w =
              Some (Inr (ReturnedState (state r)), run, w') \<and>
            flow_run run = Some r \<and> type (state r) = FAILED \<and> data (state r) = ExceptionData exc) \<and>
         (\<exists>run w' r.
            run_flow X (Suc n) f fr (Some ps) ReturnResult w =
              Some (Inl (FailedRun (Some exc)), run, w') \<and>
            flow_run run = Some r \<and> type (state r) = FAILED \<and> data (state r) = ExceptionData exc)"
proof -
  let ?e0 = "FlowRunEngine f (Some ps) fr"
  have "run_record_at_hand (flow ?e0) (parameters ?e0) (flow_run ?e0)"
    and "validated_parameters (flow ?e0) (parameters ?e0) = Inr ps'"
    using assms(1,2) by (simp_all add: FlowRunEngine_simps)
  from start_enter_valid [OF this, of X w]
  obtain r wa where
    enter: "start_enter X ?e0 w =
              (Inr (), ?e0\<lparr>u_client := Some PrefectClient, u_is_started := True,
                            flow_run := Some r, parameters := ps'\<rparr>, wa)"
    and inv: "invocations wa = invocations w"
    by blast
  let ?e1 = "?e0\<lparr>u_client := Some PrefectClient, u_is_started := True,
                  flow_run := Some r, parameters := ps'\<rparr>"
  have live: "\<not> short_circuit ?e1" "u_is_started ?e1" "u_client ?e1 \<noteq> None" "flow_run ?e1 = Some r"
    by (simp_all add: FlowRunEngine_simps)
  have call: "awaited_call f (invocations wa) (parameters ?e1) = Inl exc"
    using assms(5) inv by simp
  have "\<exists>run w' r'.
          run_flow X (Suc n) f fr (Some ps) rt w =
            Some (case rt of ReturnState \<Rightarrow> Inr (ReturnedState (state r'))
                  | ReturnResult \<Rightarrow> Inl (FailedRun (Some exc)), run, w') \<and>
          flow_run run = Some r' \<and> type (state r') = FAILED \<and> data (state r') = ExceptionData exc"
    for rt
  proof -
    from run_flow_body_failure [OF live assms(3,4) call, of n rt]
    obtain a run2 w2 where a: "type a = FAILED" "data a = ExceptionData exc"
      and fr2: "flow_run run2 = Some (r\<lparr>state := a, state_name := name a, state_type := type a\<rparr>)"
      and body: "run_flow_body X (Suc n) f rt ?e1 wa =
                   Some (case rt of ReturnState \<Rightarrow> Inr (ReturnedState a)
                         | ReturnResult \<Rightarrow> Inl (FailedRun (Some exc)), run2, w2)"
      by blast
    let ?out = "case rt of ReturnState \<Rightarrow> Inr (ReturnedState a)
                | ReturnResult \<Rightarrow> Inl (FailedRun (Some exc))"
    let ?r' = "r\<lparr>state := a, state_name := name a, state_type := type a\<rparr>"
    obtain run w' where ex: "start_exit ?out run2 w2 = (?out, run, w')"
      and fr: "flow_run run = flow_run run2"
      by (cases ?out) (simp_all add: start_exit_def Let_def)
    have "run_flow X (Suc n) f fr (Some ps) rt w = Some (?out, run, w')"
      using enter body ex by (simp add: run_flow_def start_def)
    moreover have "flow_run run = Some ?r'" using fr fr2 by simp
    moreover have "state ?r' = a" by simp
    ultimately show ?thesis using a by (cases rt) auto
  qed
  from this [of ReturnState] this [of ReturnResult] show ?thesis by simp
qed

theorem run_flow_converts_exception_witness:
  "run_record_at_hand boom (x_is (IntV 4)) None \<and>
   validated_parameters boom (x_is (IntV 4)) = Inr (x_is (IntV 4)) \<and>
   accepts accepting Running \<and>
   accepts accepting
     (exception_to_failed_state (ValueError ''boom'') ''Flow run encountered an exception:'' None) \<and>
   awaited_call boom (invocations world0) (x_is (IntV 4)) = Inl (ValueError ''boom'') \<and>
   (\<exists>run w' r.
      run_flow accepting (Suc 0) boom None (Some (x_is (IntV 4))) ReturnState world0 =
        Some (Inr (ReturnedState (state r)), run, w') \<and>
      flow_run run = Some r \<and> type (state r) = FAILED \<and>
      data (state r) = ExceptionData (ValueError ''boom'')) \<and>
   (\<exists>run w' r.
      run_flow accepting (Suc 0) boom None (Some (x_is (IntV 4))) ReturnResult world0 =
        Some (Inl (FailedRun (Some (ValueError ''boom''))), run, w') \<and>
      flow_run run = Some r \<and> type (state r) = FAILED \<and>
      data (state r) = ExceptionData (ValueError ''boom''))"
proof -
  have h1: "run_record_at_hand boom (x_is (IntV 4)) None"
    by (simp add: run_record_at_hand_def custom_flow_run_name_def boom_def add_one_simps
        no_custom_name_def)
  have h2: "validated_parameters boom (x_is (IntV 4)) = Inr (x_is (IntV 4))"
    by (simp add: validated_parameters_def boom_def add_one_simps validate_x_int_def x_is_def)
  have h3: "accepts accepting Running"
    and h4: "accepts accepting
               (exception_to_failed_state (ValueError ''boom'') ''Flow run encountered an exception:'' None)"
    by (rule accepts_accepting)+
  have h5: "awaited_call boom (invocations world0) (x_is (IntV 4)) = Inl (ValueError ''boom'')"
    by (simp add: awaited_call_def boom_def)
  from run_flow_converts_exception [OF h1 h2 h3 h4 h5, of 0] h1 h2 h3 h4 h5
  show ?thesis by blast
qed

subsection \<open>C5: transitions while short-circuited\<close>

text \<open>
  C5, as stated, for every engine whose short-circuit flag is set: two successive calls
  of \<^verbatim>\<open>set_state\<close> each return the run record's current state.  Short-circuited,
  \<^verbatim>\<open>set_state\<close> returns what the \<^verbatim>\<open>state\<close> property reads (lines 82--83), and the
  property reads \<^verbatim>\<open>self.flow_run.state\<close> (lines 68--69).  On an engine constructed
  with the flag set and no run record, both calls raise \<^verbatim>\<open>AttributeError\<close>; no state
  is returned.
\<close>

theorem set_state_short_circuited_without_record_raises:
  "short_circuit (FlowRunEngine add_one None None\<lparr>short_circuit := True\<rparr>) \<and>
   flow_run (FlowRunEngine add_one None None\<lparr>short_circuit := True\<rparr>) = None \<and>
   set_state_twice accepting Running Completed
      (FlowRunEngine add_one None None\<lparr>short_circuit := True\<rparr>) world0 =
     (Inl (AttributeError ''NoneType object has no attribute state''),
      Inl (AttributeError ''NoneType object has no attribute state''),
      FlowRunEngine add_one None None\<lparr>short_circuit := True\<rparr>, world0)"
  by (simp add: set_state_twice_def set_state_def engine_state_def FlowRunEngine_def)

text \<open>
  C5, amended: for every engine whose short-circuit flag is set and that holds a run
  record, two successive calls of \<^verbatim>\<open>set_state\<close>, with any proposed states, each
  return the run record's current state, make no call on the collaborator, and leave
  the engine, its run record included, and the world as they were.
\<close>

theorem set_state_short_circuited_returns_state:
  assumes "short_circuit eng" and "flow_run eng = Some fr"
  shows "set_state_twice X s1 s2 eng w = (Inr (state fr), Inr (state fr), eng, w)"
  using assms by (simp add: set_state_twice_def set_state_short_circuit engine_state_def)

theorem set_state_short_circuited_returns_state_witness:
  "short_circuit (FlowRunEngine add_one None (Some run7)\<lparr>short_circuit := True\<rparr>) \<and>
   flow_run (FlowRunEngine add_one None (Some run7)\<lparr>short_circuit := True\<rparr>) = Some run7 \<and>
   set_state_twice accepting Running Completed
      (FlowRunEngine add_one None (Some run7)\<lparr>short_circuit := True\<rparr>) world0 =
     (Inr Pending, Inr Pending, FlowRunEngine add_one None (Some run7)\<lparr>short_circuit := True\<rparr>, world0)"
proof -
  let ?e = "FlowRunEngine add_one None (Some run7)\<lparr>short_circuit := True\<rparr>"
  have h: "short_circuit ?e" by simp
  have fr: "flow_run ?e = Some run7" by (simp add: FlowRunEngine_def)
  have st: "state run7 = Pending" by (simp add: run7_def)
  from set_state_short_circuited_returns_state [OF h fr, of accepting Running Completed world0] st
  have "set_state_twice accepting Running Completed ?e world0 = (Inr Pending, Inr Pending, ?e, world0)"
    by simp
  with h fr show ?thesis by blast
qed

subsection \<open>C6: what a start scope releases\<close>

text \<open>
  C6 says that both scopes release the client connection and the Execution Context
  exactly once, whether the body returns or raises.  \<^verbatim>\<open>start\<close> does (fact
  \<open>start_exit_events\<close>), and \<^verbatim>\<open>start_sync\<close> does when its body returns (fact
  \<open>start_sync_exit_events_returned\<close>).  When the body of \<^verbatim>\<open>start_sync\<close> raises, the
  \<^verbatim>\<open>except\<close> clause re-raises, its call of \<^verbatim>\<open>client.__aexit__\<close> being commented out
  (line 249), and the \<^verbatim>\<open>else\<close> clause is skipped: the client is never released.  The
  blocking driver on a callable that raises, asked for the result, is such a body: the
  result resolution raises inside the scope.  The cooperative driver releases the
  client on the same input.  The same holds of every body that raises (facts
  \<open>start_sync_raising_body\<close> and \<open>start_raising_body\<close>).
\<close>

theorem start_sync_keeps_client_when_body_raises:
  "events_after (run_flow_sync accepting 1 boom None (Some (x_is (IntV 4))) ReturnResult world0) =
     Some [ClientAcquired, ContextEntered, ContextExited] \<and>
   events_after (run_flow accepting 1 boom None (Some (x_is (IntV 4))) ReturnResult world0) =
     Some [ClientAcquired, ContextEntered, ContextExited, ClientReleased]"
  by (simp add: engine_defs example_defs projection_defs Let_def)

subsection \<open>C7: a run started inside another run\<close>




subsection \<open>C8: the two drivers\<close>

text \<open>
  C8, as stated, for every work definition: the cooperative driver and the blocking
  driver return or raise the same and end in the same state type.  The cooperative
  driver awaits what the callable returns (line 299); the blocking driver takes it as
  the result (line 334).  On a work definition whose callable is a plain function
  returning \<^verbatim>\<open>x + 1\<close>, called with 4 and a collaborator that accepts every proposal, the
  blocking driver returns 5 and the run ends COMPLETED, while the cooperative driver
  awaits the integer, which raises \<^verbatim>\<open>TypeError\<close> inside the \<^verbatim>\<open>try\<close> block: the run
  ends FAILED and the result resolution raises.
\<close>

theorem drivers_differ_on_plain_callable:
  "summary (run_flow accepting 1 add_one None (Some (x_is (IntV 4))) ReturnResult world0) =
     Some (Inl (FailedRun (Some (TypeError ''object cannot be used in await expression''))),
           Some FAILED, False, 1) \<and>
   summary (run_flow_sync accepting 1 add_one None (Some (x_is (IntV 4))) ReturnResult world0) =
     Some (Inr (Returned (IntV 5)), Some COMPLETED, False, 1)"
  by (simp add: engine_defs example_defs projection_defs Let_def)

text \<open>
  C8, amended: for every work definition whose callable is a plain function, driven by
  the blocking driver, and the same work definition with the callable declared
  \<^verbatim>\<open>async def\<close>, driven by the cooperative driver, and for every collaborator, run
  record, parameters, return type, world and fuel, the two drivers return or raise the
  same, leave the same run record (so the same final state type), have made the same
  calls on the collaborator and have invoked the callable the same number of times; one
  runs out of fuel exactly when the other does.  The four scenarios of the claim are
  instances (facts \<open>scenarios\<close> and \<open>scenarios_sync\<close> evaluate them).
\<close>

theorem run_flow_on_coroutine_agrees_with_run_flow_sync:
  "observed (run_flow X fuel (as_coroutine f) fr ps rt w) = observed (run_flow_sync X fuel f fr ps rt w)"
proof -
  let ?e0 = "FlowRunEngine f ps fr"
  have lhs: "run_flow X fuel (as_coroutine f) fr ps rt w =
               start X (run_flow_body X fuel (as_coroutine f) rt) (with_coroutine ?e0) w"
    by (simp add: run_flow_def FlowRunEngine_as_coroutine)
  have rhs: "run_flow_sync X fuel f fr ps rt w = start_sync X (run_flow_sync_body X fuel f rt) ?e0 w"
    by (simp add: run_flow_sync_def)
  obtain r e1 w1 where enter: "start_enter X ?e0 w = (r, e1, w1)"
    by (cases "start_enter X ?e0 w")
  then have enter': "start_enter X (with_coroutine ?e0) w = (r, with_coroutine e1, w1)"
    by (simp add: start_enter_with_coroutine)
  show ?thesis
  proof (cases r)
    case (Inl e)
    with enter obtain e1' w1' where
      "start_sync_enter X ?e0 w = (Inl e, e1', w1')" "flow_run e1' = flow_run e1"
      "calls w1' = calls w1" "invocations w1' = invocations w1"
      using start_sync_enter_Inl by blast
    with Inl enter' show ?thesis
      unfolding lhs rhs by (simp add: start_def start_sync_def observed_def with_coroutine_simps)
  next
    case (Inr u)
    with enter have sync: "start_sync_enter X ?e0 w = (Inr u, e1, w1)"
      by (simp add: start_sync_enter_Inr)
    show ?thesis
    proof (cases "run_flow_sync_body X fuel f rt e1 w1")
      case None
      with Inr enter' sync show ?thesis
        unfolding lhs rhs
        by (simp add: start_def start_sync_def run_flow_body_with_coroutine observed_def)
    next
      case (Some out)
      obtain r2 e2 w2 where out: "out = (r2, e2, w2)" by (cases out)
      with Some Inr enter' sync show ?thesis
        unfolding lhs rhs
        using start_exits_observed [of r2 e2 w2]
        by (simp add: start_def start_sync_def run_flow_body_with_coroutine)
    qed
  qed
qed

subsection \<open>C9: a failing name resolution\<close>

text \<open>
  C9, as stated, for every exception the custom-name resolution raises:
  \<^verbatim>\<open>create_flow_run\<close> swallows it and nothing of it leaves \<^verbatim>\<open>start()\<close>.  Line 149
  catches \<^verbatim>\<open>TypeError\<close> only.  A \<^verbatim>\<open>KeyError\<close> of the resolution leaves
  \<^verbatim>\<open>create_flow_run\<close> before the collaborator is asked for a run record, and leaves
  both start scopes.
\<close>

theorem name_resolution_KeyError_propagates:
  "resolve_custom_flow_run_name badly_named (x_is (IntV 4)) = Inl (KeyError ''y'') \<and>
   create_flow_run accepting (FlowRunEngine badly_named (Some (x_is (IntV 4))) None)
       PrefectClient world0 = (Inl (KeyError ''y''), world0) \<and>
   fst (start_enter accepting (FlowRunEngine badly_named (Some (x_is (IntV 4))) None) world0) =
     Inl (KeyError ''y'') \<and>
   fst (start_sync_enter accepting (FlowRunEngine badly_named (Some (x_is (IntV 4))) None) world0) =
     Inl (KeyError ''y'')"
  by (simp add: badly_named_def add_one_def FlowRunEngine_def create_flow_run_def
      custom_flow_run_name_def FlowRunContext_get_def world0_def start_enter_def
      start_sync_enter_def attach_flow_run_def acquire_client_def Let_def)

text \<open>
  C9, amended: for every \<^verbatim>\<open>TypeError\<close> raised by the custom-name resolution during
  run-record creation, \<^verbatim>\<open>create_flow_run\<close> swallows the error and asks the
  collaborator for a run record with no custom display name; no \<^verbatim>\<open>TypeError\<close> of the
  name resolution leaves \<^verbatim>\<open>start()\<close> or \<^verbatim>\<open>start_sync()\<close>, which both reach their
  \<^verbatim>\<open>yield\<close>.
\<close>

theorem name_resolution_TypeError_swallowed:
  assumes "resolve_custom_flow_run_name (flow eng) (parameters eng) = Inl (TypeError m)"
  shows "(\<exists>cs parent.
            create_flow_run X eng cl w =
              (Inr (client_create_flow_run X cs (flow_name (flow eng)) None
                      (serialize_parameters (flow eng) (parameters eng)) Pending parent),
               w\<lparr>calls := cs @ [CreateFlowRun (flow_name (flow eng)) None
                                  (serialize_parameters (flow eng) (parameters eng)) Pending parent]\<rparr>)) \<and>
         fst (start_enter X eng w) = Inr () \<and>
         fst (start_sync_enter X eng w) = Inr ()"
proof -
  have nm: "custom_flow_run_name (flow eng) (parameters eng) = Inr None"
    using assms by (rule custom_flow_run_name_TypeError)
  have "\<exists>cs parent.
          create_flow_run X eng cl w =
            (Inr (client_create_flow_run X cs (flow_name (flow eng)) None
                    (serialize_parameters (flow eng) (parameters eng)) Pending parent),
             w\<lparr>calls := cs @ [CreateFlowRun (flow_name (flow eng)) None
                                (serialize_parameters (flow eng) (parameters eng)) Pending parent]\<rparr>)"
  proof (cases "contexts w")
    case Nil
    from create_flow_run_top_level [OF Nil nm, of X cl] show ?thesis by blast
  next
    case (Cons c cs)
    from create_flow_run_nested [OF Cons nm, of X cl] show ?thesis
      unfolding Let_def by (metis append_Cons append_Nil append_assoc)
  qed
  moreover have "run_record_at_hand (flow eng) (parameters eng) (flow_run eng)"
    using nm by (simp add: run_record_at_hand_def split: option.splits)
  ultimately show ?thesis
    using start_enter_at_hand by blast
qed

theorem name_resolution_TypeError_swallowed_witness:
  "resolve_custom_flow_run_name add_one (x_is (IntV 4)) =
     Inl (TypeError ''Expected string or callable for flow_run_name'') \<and>
   create_flow_run accepting (FlowRunEngine add_one (Some (x_is (IntV 4))) None) PrefectClient world0 =
     (Inr \<lparr>run_id = 0, run_name = None, run_parameters = x_is (IntV 4), state = Pending,
           state_name = ''Pending'', state_type = PENDING, parent_task_run_id = None\<rparr>,
      world0\<lparr>calls := [CreateFlowRun ''add_one'' None (x_is (IntV 4)) Pending None]\<rparr>) \<and>
   fst (start_enter accepting (FlowRunEngine add_one (Some (x_is (IntV 4))) None) world0) = Inr () \<and>
   fst (start_sync_enter accepting (FlowRunEngine add_one (Some (x_is (IntV 4))) None) world0) = Inr ()"
proof -
  let ?e = "FlowRunEngine add_one (Some (x_is (IntV 4))) None"
  have h: "resolve_custom_flow_run_name (flow ?e) (parameters ?e) =
             Inl (TypeError ''Expected string or callable for flow_run_name'')"
    by (simp add: FlowRunEngine_def add_one_def no_custom_name_def)
  have c: "create_flow_run accepting ?e PrefectClient world0 =
     (Inr \<lparr>run_id = 0, run_name = None, run_parameters = x_is (IntV 4), state = Pending,
           state_name = ''Pending'', state_type = PENDING, parent_task_run_id = None\<rparr>,
      world0\<lparr>calls := [CreateFlowRun ''add_one'' None (x_is (IntV 4)) Pending None]\<rparr>)"
    by (simp add: create_flow_run_def custom_flow_run_name_def FlowRunContext_get_def
        FlowRunEngine_def add_one_def no_custom_name_def world0_def accepting_def Let_def Pending_def)
  from name_resolution_TypeError_swallowed [OF h, of accepting PrefectClient world0] h c
  show ?thesis by (simp add: FlowRunEngine_def add_one_def)
qed

subsection \<open>C10: the client outside the start scope\<close>

text \<open>
  C10 says that the client property raises \<^verbatim>\<open>RuntimeError\<close> before \<^verbatim>\<open>start()\<close> is
  entered and after its scope has exited, the scope resetting \<^verbatim>\<open>_is_started\<close> and
  \<^verbatim>\<open>_client\<close> on exit.  It raises on an engine as constructed (fact
  \<open>client_before_start\<close>), after \<^verbatim>\<open>start_sync\<close> on either outcome of its body, whose
  \<^verbatim>\<open>finally\<close> clause resets both fields (fact \<open>client_after_start_sync_exit\<close>), and
  after \<^verbatim>\<open>start\<close> when the body returned (fact \<open>client_after_start_exit_returned\<close>).
  The two assignments of \<^verbatim>\<open>start\<close> (lines 198--199) follow the \<^verbatim>\<open>async with\<close> block,
  so they are skipped when the body raises (fact \<open>engine_after_start_exit_raised\<close>):
  after the cooperative driver on a callable that raises, asked for the result, the
  engine is still marked started and the property returns the released client.  The
  same holds of every body that raises (fact \<open>start_raising_body\<close>).
\<close>

theorem start_keeps_client_when_body_raises:
  "client (FlowRunEngine boom (Some (x_is (IntV 4))) None) =
     Inl (RuntimeError ''Engine has not started.'') \<and>
   client_after (run_flow accepting 1 boom None (Some (x_is (IntV 4))) ReturnResult world0) =
     Some (True, Some PrefectClient, Inr PrefectClient) \<and>
   client_after (run_flow_sync accepting 1 boom None (Some (x_is (IntV 4))) ReturnResult world0) =
     Some (False, None, Inl (RuntimeError ''Engine has not started.''))"
  by (simp add: engine_defs example_defs projection_defs Let_def)

end
